theory Spec2Isabelle
  imports Main
begin

section \<open>JavaScript values\<close>

text \<open>
  The data handed to \<^verbatim>\<open>render\<close> are JSON-like JavaScript values. Records are objects,
  kept as association lists in insertion order with one entry for a key; a sequence is
  an array. \<open>JHole\<close> marks an array slot that was never written (it occurs only as an
  element of \<open>JArr\<close> and reads as \<open>undefined\<close>). Numbers are the integers; their text
  form is the decimal one, which is what JavaScript prints below \<open>10^21\<close>. Strings are
  strings of ASCII characters, so that length and index count the same units as in
  JavaScript.

  A function of the source that throws returns an error here: \<open>TypeError\<close> and
  \<open>InvalidStateError\<close> for the uncaught exceptions of these names, and \<open>NotModelled\<close> where the behaviour of the source
  depends on something that these values do not represent (object identity, named
  properties of an array, conversion of an object to text, names inherited from
  \<^verbatim>\<open>Object.prototype\<close>). The warnings that a function writes to the console are part of
  its result; those written before an exception are not kept.
\<close>

datatype jsval =
    JUndef
  | JNull
  | JBool bool
  | JNum int
  | JStr string
  | JArr "jsval list"
  | JObj "(string \<times> jsval) list"
  | JHole

datatype error = TypeError | InvalidStateError | NotModelled

fun truthy :: "jsval \<Rightarrow> bool" where
  "truthy JUndef = False"
| "truthy JNull = False"
| "truthy (JBool b) = b"
| "truthy (JNum n) = (n \<noteq> 0)"
| "truthy (JStr s) = (s \<noteq> [])"
| "truthy (JArr xs) = True"
| "truthy (JObj ps) = True"
| "truthy JHole = False"

text \<open>Decimal text of a natural number, and the reading of a canonical array index.\<close>

definition digit_char :: "nat \<Rightarrow> char" where
  "digit_char d = char_of (48 + d)"

fun dec :: "nat \<Rightarrow> string" where
  "dec n = (if n < 10 then [digit_char n] else dec (n div 10) @ [digit_char (n mod 10)])"

declare dec.simps [simp del]

definition is_digit :: "char \<Rightarrow> bool" where
  "is_digit c = (48 \<le> (of_char c :: nat) \<and> (of_char c :: nat) \<le> 57)"

definition digits_value :: "string \<Rightarrow> nat" where
  "digits_value s = foldl (\<lambda>acc c. 10 * acc + ((of_char c :: nat) - 48)) 0 s"

definition array_index :: "string \<Rightarrow> nat option" where
  "array_index k =
     (if k \<noteq> [] \<and> list_all is_digit k \<and> (k = ''0'' \<or> hd k \<noteq> CHR ''0'')
      then Some (digits_value k) else None)"

definition int_text :: "int \<Rightarrow> string" where
  "int_text n = (if n < 0 then CHR ''-'' # dec (nat (- n)) else dec (nat n))"

text \<open>\<^verbatim>\<open>String(v)\<close> and the conversion done by \<^verbatim>\<open>+\<close> with a string operand.\<close>

fun to_string :: "jsval \<Rightarrow> error + string" where
  "to_string JUndef = Inr ''undefined''"
| "to_string JNull = Inr ''null''"
| "to_string (JBool b) = Inr (if b then ''true'' else ''false'')"
| "to_string (JNum n) = Inr (int_text n)"
| "to_string (JStr s) = Inr s"
| "to_string (JArr xs) = Inl NotModelled"
| "to_string (JObj ps) = Inl NotModelled"
| "to_string JHole = Inl NotModelled"

definition read_slot :: "jsval \<Rightarrow> jsval" where
  "read_slot v = (if v = JHole then JUndef else v)"

text \<open>
  The names that every object inherits from \<^verbatim>\<open>Object.prototype\<close>. Their values are
  functions of the host, which \<open>jsval\<close> does not represent. A primitive value or an
  array inherits further names, all of them identifiers; which ones depends on the host.
\<close>

definition object_prototype_names :: "string list" where
  "object_prototype_names =
     [''constructor'', ''hasOwnProperty'', ''isPrototypeOf'', ''propertyIsEnumerable'',
      ''toLocaleString'', ''toString'', ''valueOf'', ''__proto__'', ''__defineGetter__'',
      ''__defineSetter__'', ''__lookupGetter__'', ''__lookupSetter__'']"

definition is_name_char :: "char \<Rightarrow> bool" where
  "is_name_char c =
     (let n = (of_char c :: nat)
      in (48 \<le> n \<and> n \<le> 57) \<or> (65 \<le> n \<and> n \<le> 90) \<or> (97 \<le> n \<and> n \<le> 122) \<or> n = 95 \<or> n = 36)"

definition identifier_like :: "string \<Rightarrow> bool" where
  "identifier_like k = (k \<noteq> [] \<and> list_all is_name_char k)"

text \<open>
  \<^verbatim>\<open>v[key]\<close>: reading a property. On \<open>null\<close> and \<open>undefined\<close> the read throws. A record
  answers with its own property, or \<open>undefined\<close>. A string answers with its length and
  its characters, an array with its length and its slots. A name that may be inherited
  is not modelled.
\<close>

definition other_key :: "string \<Rightarrow> error + jsval" where
  "other_key k = (if identifier_like k then Inl NotModelled else Inr JUndef)"

fun get_prop :: "jsval \<Rightarrow> string \<Rightarrow> error + jsval" where
  "get_prop JUndef k = Inl TypeError"
| "get_prop JNull k = Inl TypeError"
| "get_prop JHole k = Inl TypeError"
| "get_prop (JBool b) k = other_key k"
| "get_prop (JNum n) k = other_key k"
| "get_prop (JStr s) k =
     (if k = ''length'' then Inr (JNum (int (length s)))
      else case array_index k of
             Some i \<Rightarrow> Inr (if i < length s then JStr [s ! i] else JUndef)
           | None \<Rightarrow> other_key k)"
| "get_prop (JArr xs) k =
     (if k = ''length'' then Inr (JNum (int (length xs)))
      else case array_index k of
             Some i \<Rightarrow> Inr (if i < length xs then read_slot (xs ! i) else JUndef)
           | None \<Rightarrow> other_key k)"
| "get_prop (JObj ps) k =
     (case map_of ps k of
        Some v \<Rightarrow> Inr v
      | None \<Rightarrow> if k \<in> set object_prototype_names then Inl NotModelled else Inr JUndef)"

text \<open>The value of a property where the read does not throw.\<close>

definition prop_of :: "jsval \<Rightarrow> string \<Rightarrow> jsval" where
  "prop_of v k = (case get_prop v k of Inr w \<Rightarrow> w | Inl e \<Rightarrow> JUndef)"

text \<open>Writing a key of an association list: in place, or as a new last entry.\<close>

fun update_key :: "string \<Rightarrow> 'a \<Rightarrow> (string \<times> 'a) list \<Rightarrow> (string \<times> 'a) list" where
  "update_key k w [] = [(k, w)]"
| "update_key k w ((k', v) # ps) = (if k' = k then (k, w) # ps else (k', v) # update_key k w ps)"

text \<open>\<^verbatim>\<open>Array.isArray\<close>.\<close>

fun isArray_val :: "jsval \<Rightarrow> bool" where
  "isArray_val (JArr xs) = True"
| "isArray_val v = False"

text \<open>String helpers of the host: \<^verbatim>\<open>startsWith\<close>, \<^verbatim>\<open>endsWith\<close>, \<^verbatim>\<open>includes\<close>.\<close>

fun startsWith :: "string \<Rightarrow> string \<Rightarrow> bool" where
  "startsWith s [] = True"
| "startsWith [] (p # ps) = False"
| "startsWith (c # cs) (p # ps) = (c = p \<and> startsWith cs ps)"

definition endsWith :: "string \<Rightarrow> string \<Rightarrow> bool" where
  "endsWith s p = startsWith (rev s) (rev p)"

fun str_includes :: "string \<Rightarrow> string \<Rightarrow> bool" where
  "str_includes [] p = (p = [])"
| "str_includes (c # cs) p = (startsWith (c # cs) p \<or> str_includes cs p)"

section \<open>The template tree and its structural analysis\<close>

text \<open>
  A DOM node is an element (lower-cased tag name, attributes in document order, the
  state that scripts set through element properties such as \<^verbatim>\<open>checked\<close> and
  \<^verbatim>\<open>value\<close>, child nodes) or a text node. \<^verbatim>\<open>element.children\<close> are the child nodes that
  are elements.
\<close>

datatype node =
    Element (tagName: string) (attrs: "(string \<times> string) list")
            (state: "(string \<times> jsval) list") (childNodes: "node list")
  | Text string

fun is_element :: "node \<Rightarrow> bool" where
  "is_element (Element t as st cs) = True"
| "is_element (Text s) = False"

definition getAttribute :: "node \<Rightarrow> string \<Rightarrow> string option" where
  "getAttribute e name = (case e of Element t as st cs \<Rightarrow> map_of as name | Text s \<Rightarrow> None)"

definition hasAttribute :: "node \<Rightarrow> string \<Rightarrow> bool" where
  "hasAttribute e name = (getAttribute e name \<noteq> None)"

text \<open>A DOM string or \<open>null\<close> in a condition: \<open>null\<close> and the empty string are falsy.\<close>

definition truthy_str :: "string option \<Rightarrow> bool" where
  "truthy_str s = (s \<noteq> None \<and> s \<noteq> Some [])"

text \<open>The object built by \<^verbatim>\<open>_analyzeElement\<close>.\<close>

datatype analysis = Analysis
  (a_itemprop: "string option")
  (a_itemscope: bool)
  (a_itemtype: "string option")
  (a_dataScope: "string option")
  (a_dataConstraint: "string option")
  (a_scope: "string option")
  (a_isArray: bool)
  (a_cleanItemprop: "string option")
  (a_attributes: "(string \<times> string) list")
  (a_children: "analysis list")

fun analyzeElement :: "node \<Rightarrow> analysis" where
  "analyzeElement (Element t as st cs) =
     (let itemprop = map_of as ''itemprop'';
          arr = (case itemprop of Some p \<Rightarrow> p \<noteq> [] \<and> endsWith p ''[]'' | None \<Rightarrow> False)
      in Analysis itemprop
           (map_of as ''itemscope'' \<noteq> None)
           (map_of as ''itemtype'')
           (map_of as ''data-scope'')
           (map_of as ''data-constraint'')
           (map_of as ''scope'')
           arr
           (if arr then map_option (\<lambda>p. take (length p - 2) p) itemprop else itemprop)
           (filter (\<lambda>(n, v). str_includes v ''${'') as)
           (map analyzeElement (filter is_element cs)))"
| "analyzeElement (Text s) =
     Analysis None False None None None None False None [] []"

text \<open>An entry of \<^verbatim>\<open>_templateCache.rootElements\<close>.\<close>

record root_entry =
  r_element :: node
  r_itemtype :: "string option"
  r_structure :: analysis

definition make_root :: "node \<Rightarrow> root_entry" where
  "make_root el = \<lparr> r_element = el, r_itemtype = getAttribute el ''itemtype'',
                    r_structure = analyzeElement el \<rparr>"

section \<open>Choosing the template of a record\<close>

text \<open>
  The first part of \<^verbatim>\<open>_renderSingle\<close>: the search for \<open>matchingTemplate\<close>. A record
  without template makes \<^verbatim>\<open>_renderSingle\<close> return \<open>null\<close> in two places: without a word
  when the record has a type that no root declares and some root is typed, and with a
  warning otherwise. A selector that is absent or empty is falsy.
\<close>

datatype selection = Selected root_entry | SkippedTyped | NoTemplate

definition selector_given :: "string option \<Rightarrow> bool" where
  "selector_given sel = truthy_str sel"

definition hasTypedTemplates :: "root_entry list \<Rightarrow> bool" where
  "hasTypedTemplates roots = list_ex (\<lambda>t. truthy_str (r_itemtype t)) roots"

definition firstAvailable :: "root_entry list \<Rightarrow> jsval \<Rightarrow> selection" where
  "firstAvailable roots ty =
     (case roots of
        [] \<Rightarrow> NoTemplate
      | firstTemplate # rest \<Rightarrow>
          if \<not> truthy_str (r_itemtype firstTemplate) \<or> \<not> truthy ty
          then Selected firstTemplate else NoTemplate)"

definition matchingTemplate ::
  "root_entry list \<Rightarrow> string option \<Rightarrow> jsval \<Rightarrow> error + selection" where
  "matchingTemplate roots sel data =
     (case get_prop data ''@type'' of
        Inl e \<Rightarrow> Inl e
      | Inr ty \<Rightarrow>
          if truthy ty \<and> \<not> selector_given sel then
            (case get_prop data ''@context'' of
               Inl e \<Rightarrow> Inl e
             | Inr cx \<Rightarrow>
                 (case to_string cx of
                    Inl e \<Rightarrow> Inl e
                  | Inr cs \<Rightarrow>
                      (case to_string ty of
                         Inl e \<Rightarrow> Inl e
                       | Inr ts \<Rightarrow>
                           (let schemaType = cs @ ''/'' @ ts in
                            case find (\<lambda>t. r_itemtype t = Some schemaType) roots of
                              Some t \<Rightarrow> Inr (Selected t)
                            | None \<Rightarrow>
                                if hasTypedTemplates roots then Inr SkippedTyped
                                else Inr (firstAvailable roots ty)))))
          else Inr (firstAvailable roots ty))"

section \<open>Constraints\<close>

text \<open>
  The rendering context of \<^verbatim>\<open>_renderSingle\<close>. The field \<^verbatim>\<open>_resolvedReference\<close>, which
  \<^verbatim>\<open>_evaluateExpression\<close> sets and \<^verbatim>\<open>_processElement\<close> reads and deletes at once, is
  the second component of the result of \<open>evaluateExpression\<close> below.
\<close>

record render_context =
  rootData :: jsval
  currentData :: jsval
  allData :: "jsval list"

subsection \<open>The scope filter\<close>

text \<open>
  \<^verbatim>\<open>Array.prototype.filter\<close> with a callback that may throw; it skips the holes of the
  array.
\<close>

fun filter_items :: "(jsval \<Rightarrow> error + bool) \<Rightarrow> jsval list \<Rightarrow> error + jsval list" where
  "filter_items p [] = Inr []"
| "filter_items p (x # xs) =
     (if x = JHole then filter_items p xs
      else case p x of
             Inl e \<Rightarrow> Inl e
           | Inr b \<Rightarrow>
               (case filter_items p xs of
                  Inl e \<Rightarrow> Inl e
                | Inr ys \<Rightarrow> Inr (if b then x # ys else ys)))"

text \<open>
  The test of one item: \<^verbatim>\<open>scopeValue === '#' + currentId || scopeValue === currentId\<close>.
  \<open>currentId\<close> is converted to text first; a strict comparison with a primitive is
  equality of values.
\<close>

definition scope_test :: "string \<Rightarrow> jsval \<Rightarrow> jsval \<Rightarrow> error + bool" where
  "scope_test scope currentId item =
     (case get_prop item scope of
        Inl e \<Rightarrow> Inl e
      | Inr scopeValue \<Rightarrow>
          (case to_string currentId of
             Inl e \<Rightarrow> Inl e
           | Inr idText \<Rightarrow> Inr (scopeValue = JStr (CHR ''#'' # idText) \<or> scopeValue = currentId)))"

definition findScopeMatches :: "string \<Rightarrow> jsval \<Rightarrow> render_context \<Rightarrow> error + jsval list" where
  "findScopeMatches scope data ctx =
     (case get_prop (rootData ctx) ''@id'' of
        Inl e \<Rightarrow> Inl e
      | Inr currentId \<Rightarrow>
          if \<not> truthy currentId then Inr []
          else filter_items (scope_test scope currentId) (allData ctx))"

subsection \<open>Expressions\<close>

text \<open>
  The host facilities that the source calls and that are no part of the repository:
  \<^verbatim>\<open>Function(text)()\<close>, which compiles the text as the body of a function and runs it,
  \<^verbatim>\<open>document.baseURI\<close>, and \<^verbatim>\<open>querySelectorAll\<close> on the content of the template. They
  are parameters of the model. The call either returns
  a value or throws; \<open>Beyond\<close> is the answer of a host model that does not cover the text.

  A value of \<open>host\<close> is the host at one moment: \<open>Function_call h t\<close> is what running \<open>t\<close>
  gives then. Running a text can read and change the page (\<^verbatim>\<open>Math.random()\<close>, a counter
  in \<^verbatim>\<open>globalThis\<close>), so the host of a later call is in general another value. A
  statement about one call holds for every \<open>h\<close>; a statement about two renders names the
  host of each. A render in which the host answers one text in two ways, and a text
  that does not return, are outside the model.
\<close>

datatype host_result = Returned jsval | Threw | Beyond

record host =
  Function_call :: "string \<Rightarrow> host_result"
  baseURI :: string
  querySelectorAll :: "string \<Rightarrow> node list \<Rightarrow> node list"

datatype warning =
    NoMatchingTemplate jsval
  | ExpectedArray "string option"
  | FailedConstraint string

text \<open>The matches of \<^verbatim>\<open>/\b\w+\b/g\<close>: the maximal runs of word characters.\<close>

definition is_word_char :: "char \<Rightarrow> bool" where
  "is_word_char c =
     (let n = (of_char c :: nat)
      in (48 \<le> n \<and> n \<le> 57) \<or> (65 \<le> n \<and> n \<le> 90) \<or> (97 \<le> n \<and> n \<le> 122) \<or> n = 95)"

fun scan_words :: "string \<Rightarrow> string \<Rightarrow> string list" where
  "scan_words cur [] = (if cur = [] then [] else [cur])"
| "scan_words cur (c # cs) =
     (if is_word_char c then scan_words (cur @ [c]) cs
      else (if cur = [] then [] else [cur]) @ scan_words [] cs)"

definition word_matches :: "string \<Rightarrow> string list" where
  "word_matches e = scan_words [] e"

text \<open>
  \<^verbatim>\<open>e.replace(new RegExp('\\b' + prop + '\\b', 'g'), r)\<close> for a word \<open>prop\<close>: every
  maximal run of word characters that is \<open>prop\<close> becomes \<open>r\<close>.
\<close>

fun replace_words :: "string \<Rightarrow> string \<Rightarrow> string \<Rightarrow> string \<Rightarrow> string" where
  "replace_words prop r cur [] = (if cur = prop then r else cur)"
| "replace_words prop r cur (c # cs) =
     (if is_word_char c then replace_words prop r (cur @ [c]) cs
      else (if cur = prop then r else cur) @ c # replace_words prop r [] cs)"

text \<open>\<^verbatim>\<open>e.replace(pat, r)\<close> for a string \<open>pat\<close>: the first occurrence only.\<close>

fun replace_first :: "string \<Rightarrow> string \<Rightarrow> string \<Rightarrow> string" where
  "replace_first pat r [] = (if pat = [] then r else [])"
| "replace_first pat r (c # cs) =
     (if startsWith (c # cs) pat then r @ drop (length pat) (c # cs)
      else c # replace_first pat r cs)"

text \<open>
  A replacement text is read by \<^verbatim>\<open>replace\<close> for patterns that start with a dollar
  sign; such a text is not modelled where it is used.
\<close>

definition plain_replacement :: "string \<Rightarrow> bool" where
  "plain_replacement r = (CHR ''$'' \<notin> set r)"

text \<open>
  \<^verbatim>\<open>data.hasOwnProperty(prop)\<close>. A record whose own property of that name shadows the
  method holds a value that cannot be called.
\<close>

fun hasOwnProperty :: "jsval \<Rightarrow> string \<Rightarrow> error + bool" where
  "hasOwnProperty JUndef k = Inl TypeError"
| "hasOwnProperty JNull k = Inl TypeError"
| "hasOwnProperty JHole k = Inl TypeError"
| "hasOwnProperty (JBool b) k = Inr False"
| "hasOwnProperty (JNum n) k = Inr False"
| "hasOwnProperty (JStr s) k =
     Inr (k = ''length'' \<or> (case array_index k of Some i \<Rightarrow> i < length s | None \<Rightarrow> False))"
| "hasOwnProperty (JArr xs) k =
     Inr (k = ''length'' \<or>
          (case array_index k of Some i \<Rightarrow> i < length xs \<and> xs ! i \<noteq> JHole | None \<Rightarrow> False))"
| "hasOwnProperty (JObj ps) k =
     (if map_of ps ''hasOwnProperty'' \<noteq> None then Inl TypeError
      else Inr (map_of ps k \<noteq> None))"

text \<open>
  The text that replaces a property name: the value between double quotes when it is a
  string, \<^verbatim>\<open>JSON.stringify(value)\<close> otherwise.
\<close>

fun value_text :: "jsval \<Rightarrow> error + string" where
  "value_text (JStr s) = Inr (''\"'' @ s @ ''\"'')"
| "value_text (JNum n) = Inr (int_text n)"
| "value_text (JBool b) = Inr (if b then ''true'' else ''false'')"
| "value_text JNull = Inr ''null''"
| "value_text JUndef = Inr ''undefined''"
| "value_text (JArr xs) = Inl NotModelled"
| "value_text (JObj ps) = Inl NotModelled"
| "value_text JHole = Inl NotModelled"

text \<open>
  The loop over \<open>props\<close>: each name that is an own property of \<open>data\<close> is replaced in
  the expression as it stands at that moment.
\<close>

fun substitute_props :: "jsval \<Rightarrow> string list \<Rightarrow> string \<Rightarrow> error + string" where
  "substitute_props data [] e = Inr e"
| "substitute_props data (prop # props) e =
     (case hasOwnProperty data prop of
        Inl err \<Rightarrow> Inl err
      | Inr False \<Rightarrow> substitute_props data props e
      | Inr True \<Rightarrow>
          (case get_prop data prop of
             Inl err \<Rightarrow> Inl err
           | Inr v \<Rightarrow>
               (case value_text v of
                  Inl err \<Rightarrow> Inl err
                | Inr r \<Rightarrow>
                    if prop \<in> set (word_matches e) \<and> \<not> plain_replacement r then Inl NotModelled
                    else substitute_props data props (replace_words prop r [] e))))"

text \<open>The expression after \<^verbatim>\<open>@id\<close> and the property names have been replaced.\<close>

definition substituted :: "string \<Rightarrow> jsval \<Rightarrow> error + string" where
  "substituted expression data =
     (case get_prop data ''@id'' of
        Inl err \<Rightarrow> Inl err
      | Inr i \<Rightarrow>
          (case to_string (if truthy i then i else JStr []) of
             Inl err \<Rightarrow> Inl err
           | Inr idText \<Rightarrow>
               if str_includes expression ''@id'' \<and> \<not> plain_replacement idText then Inl NotModelled
               else (let e1 = replace_first ''@id'' (''\"'' @ idText @ ''\"'') expression
                     in substitute_props data (word_matches e1) e1)))"

definition function_body :: "string \<Rightarrow> string" where
  "function_body e = ''\"use strict\"; return ('' @ e @ '')''"

text \<open>\<^verbatim>\<open>allData.find(item => item['@id'] === id)\<close>; \<^verbatim>\<open>find\<close> visits a hole as \<open>undefined\<close>.\<close>

fun find_by_id :: "string \<Rightarrow> jsval list \<Rightarrow> error + jsval option" where
  "find_by_id i [] = Inr None"
| "find_by_id i (item # items) =
     (case get_prop item ''@id'' of
        Inl err \<Rightarrow> Inl err
      | Inr v \<Rightarrow> if v = JStr i then Inr (Some item) else find_by_id i items)"

text \<open>
  \<^verbatim>\<open>_evaluateExpression\<close>. The result is the value returned, the record left in
  \<^verbatim>\<open>context._resolvedReference\<close> if any, and the warnings written to the console.
\<close>

definition evaluateExpression ::
  "host \<Rightarrow> string \<Rightarrow> jsval \<Rightarrow> render_context \<Rightarrow> error + (jsval \<times> jsval option \<times> warning list)" where
  "evaluateExpression h expression data ctx =
     (if expression = ''@id==agent'' then
        (case get_prop (currentData ctx) ''agent'' of
           Inl err \<Rightarrow> Inl err
         | Inr a1 \<Rightarrow>
             (case (if truthy a1 then Inr a1 else get_prop data ''agent'') of
                Inl err \<Rightarrow> Inl err
              | Inr agentRef \<Rightarrow>
                  if \<not> truthy agentRef then Inr (JBool False, None, [])
                  else (case agentRef of
                          JStr s \<Rightarrow>
                            if startsWith s ''#'' then
                              (case find_by_id (drop 1 s) (allData ctx) of
                                 Inl err \<Rightarrow> Inl err
                               | Inr (Some match) \<Rightarrow>
                                   if truthy match then Inr (JBool True, Some match, [])
                                   else Inr (JBool False, None, [])
                               | Inr None \<Rightarrow> Inr (JBool False, None, []))
                            else Inr (JBool False, None, [])
                        | _ \<Rightarrow> Inl TypeError)))
      else
        (case substituted expression data of
           Inl err \<Rightarrow> Inl err
         | Inr e \<Rightarrow>
             (case Function_call h (function_body e) of
                Returned v \<Rightarrow> Inr (v, None, [])
              | Threw \<Rightarrow> Inr (JBool False, None, [FailedConstraint e])
              | Beyond \<Rightarrow> Inl NotModelled)))"

text \<open>\<^verbatim>\<open>_evaluateConstraint\<close>; the element is not used by the source.\<close>

definition evaluateConstraint ::
  "host \<Rightarrow> analysis \<Rightarrow> jsval \<Rightarrow> render_context \<Rightarrow> error + (jsval \<times> jsval option \<times> warning list)" where
  "evaluateConstraint h s data ctx =
     (if truthy_str (a_dataScope s) then
        (case get_prop data (the (a_dataScope s)) of
           Inl err \<Rightarrow> Inl err
         | Inr scopeValue \<Rightarrow>
             (case get_prop (rootData ctx) ''@id'' of
                Inl err \<Rightarrow> Inl err
              | Inr contextId \<Rightarrow>
                  if truthy contextId \<and> truthy scopeValue then
                    (case to_string contextId of
                       Inl err \<Rightarrow> Inl err
                     | Inr idText \<Rightarrow>
                         Inr (JBool (scopeValue = JStr (CHR ''#'' # idText) \<or> scopeValue = contextId),
                              None, []))
                  else Inr (JBool False, None, [])))
      else if truthy_str (a_dataConstraint s) then
        evaluateExpression h (the (a_dataConstraint s)) data ctx
      else Inr (JBool True, None, []))"

section \<open>A host for the comparison fragment\<close>

text \<open>
  A model of what a JavaScript host does with \<^verbatim>\<open>Function('"use strict"; return (e)')()\<close>
  when \<open>e\<close> is made of string and integer literals, \<open>true\<close>, \<open>false\<close>, \<open>null\<close>,
  identifiers, parentheses and the operators \<open>== != < <= > >= && || !\<close>. An identifier
  is read from the global scope \<open>G\<close>; reading a name that is not bound there throws a
  \<^verbatim>\<open>ReferenceError\<close>. For every other text (and for a numeral of more than fifteen
  digits, which a double does not hold exactly) the model answers \<open>Beyond\<close>: it says
  nothing about it. It is used to evaluate the source at concrete inputs.
\<close>

datatype token =
    TStr string | TNum int | TIdent string | TTrue | TFalse | TNull
  | TLParen | TRParen | TNot | TEq | TNe | TLt | TLe | TGt | TGe | TAnd | TOr

definition is_space :: "char \<Rightarrow> bool" where
  "is_space c = (c = CHR '' '' \<or> c = CHR 0x09 \<or> c = CHR 0x0A \<or> c = CHR 0x0D)"

definition is_ident_start :: "char \<Rightarrow> bool" where
  "is_ident_start c = ((is_word_char c \<and> \<not> is_digit c) \<or> c = CHR ''$'')"

definition is_ident_char :: "char \<Rightarrow> bool" where
  "is_ident_char c = (is_word_char c \<or> c = CHR ''$'')"

definition reserved_words :: "string list" where
  "reserved_words =
     [''arguments'', ''async'', ''await'', ''break'', ''case'', ''catch'', ''class'', ''const'',
      ''continue'', ''debugger'', ''default'', ''delete'', ''do'', ''else'', ''enum'', ''eval'',
      ''export'', ''extends'', ''finally'', ''for'', ''function'', ''if'', ''implements'',
      ''import'', ''in'', ''instanceof'', ''interface'', ''let'', ''new'', ''of'', ''package'',
      ''private'', ''protected'', ''public'', ''return'', ''static'', ''super'', ''switch'',
      ''this'', ''throw'', ''try'', ''typeof'', ''var'', ''void'', ''while'', ''with'', ''yield'',
      ''NaN'', ''Infinity'']"

definition word_token :: "string \<Rightarrow> token option" where
  "word_token w =
     (if w = ''true'' then Some TTrue
      else if w = ''false'' then Some TFalse
      else if w = ''null'' then Some TNull
      else if w \<in> set reserved_words then None
      else Some (TIdent w))"

definition string_body_ok :: "string \<Rightarrow> bool" where
  "string_body_ok b = (\<forall>x \<in> set b. x \<noteq> CHR 0x5C \<and> x \<noteq> CHR 0x0A \<and> x \<noteq> CHR 0x0D)"

definition cons_token :: "token \<Rightarrow> token list option \<Rightarrow> token list option" where
  "cons_token t r = (case r of None \<Rightarrow> None | Some ts \<Rightarrow> Some (t # ts))"

function lex :: "string \<Rightarrow> token list option" where
  "lex [] = Some []"
| "lex (c # cs) =
     (if is_space c then lex cs
      else if c = CHR 0x22 \<or> c = CHR 0x27 then
        (if dropWhile (\<lambda>x. x \<noteq> c) cs = [] \<or> \<not> string_body_ok (takeWhile (\<lambda>x. x \<noteq> c) cs)
         then None
         else cons_token (TStr (takeWhile (\<lambda>x. x \<noteq> c) cs)) (lex (tl (dropWhile (\<lambda>x. x \<noteq> c) cs))))
      else if is_digit c then
        (if (dropWhile is_digit cs \<noteq> [] \<and>
              (is_ident_char (hd (dropWhile is_digit cs)) \<or> hd (dropWhile is_digit cs) = CHR ''.''))
            \<or> (c = CHR ''0'' \<and> takeWhile is_digit cs \<noteq> [])
            \<or> 14 < length (takeWhile is_digit cs)
         then None
         else cons_token (TNum (int (digits_value (c # takeWhile is_digit cs))))
                (lex (dropWhile is_digit cs)))
      else if is_ident_start c then
        (case word_token (c # takeWhile is_ident_char cs) of
           None \<Rightarrow> None
         | Some t \<Rightarrow> cons_token t (lex (dropWhile is_ident_char cs)))
      else if c = CHR ''('' then cons_token TLParen (lex cs)
      else if c = CHR '')'' then cons_token TRParen (lex cs)
      else if c = CHR ''='' then
        (case cs of
           d # ds \<Rightarrow>
             if d = CHR ''='' \<and> \<not> startsWith ds ''='' then cons_token TEq (lex ds) else None
         | [] \<Rightarrow> None)
      else if c = CHR ''!'' then
        (case cs of
           d # ds \<Rightarrow>
             if d = CHR ''='' then
               (if startsWith ds ''='' then None else cons_token TNe (lex ds))
             else cons_token TNot (lex cs)
         | [] \<Rightarrow> cons_token TNot (lex cs))
      else if c = CHR ''<'' then
        (case cs of
           d # ds \<Rightarrow>
             if d = CHR ''='' then cons_token TLe (lex ds)
             else if d = CHR ''<'' \<or> d = CHR ''!'' then None
             else cons_token TLt (lex cs)
         | [] \<Rightarrow> cons_token TLt (lex cs))
      else if c = CHR ''>'' then
        (case cs of
           d # ds \<Rightarrow>
             if d = CHR ''='' then cons_token TGe (lex ds)
             else if d = CHR ''>'' then None
             else cons_token TGt (lex cs)
         | [] \<Rightarrow> cons_token TGt (lex cs))
      else if c = CHR ''&'' then
        (case cs of
           d # ds \<Rightarrow>
             if d = CHR ''&'' \<and> \<not> startsWith ds ''='' then cons_token TAnd (lex ds) else None
         | [] \<Rightarrow> None)
      else if c = CHR ''|'' then
        (case cs of
           d # ds \<Rightarrow>
             if d = CHR ''|'' \<and> \<not> startsWith ds ''='' then cons_token TOr (lex ds) else None
         | [] \<Rightarrow> None)
      else None)"
  by pat_completeness auto
termination
proof (relation "measure length")
  fix c :: char and cs :: string
  have d: "length (dropWhile p cs) < Suc (length cs)" for p :: "char \<Rightarrow> bool"
    by (simp add: length_dropWhile_le le_imp_less_Suc)
  have t: "length (tl (dropWhile p cs)) < Suc (length cs)" for p :: "char \<Rightarrow> bool"
    using d [of p] by simp
  show "(tl (dropWhile (\<lambda>x. x \<noteq> c) cs), c # cs) \<in> measure length"
    using t by simp
  show "(dropWhile is_digit cs, c # cs) \<in> measure length"
    using d by simp
  show "(dropWhile is_ident_char cs, c # cs) \<in> measure length"
    using d by simp
qed auto

datatype expr = Lit jsval | Ident string | Not expr | Bin token expr expr

text \<open>
  Precedence levels of the binary operators, loosest first: \<open>||\<close>, \<open>&&\<close>, equality,
  relational; operators of one level associate to the left.
\<close>

definition op_level :: "token \<Rightarrow> nat option" where
  "op_level t =
     (if t = TOr then Some 0
      else if t = TAnd then Some 1
      else if t = TEq \<or> t = TNe then Some 2
      else if t = TLt \<or> t = TLe \<or> t = TGt \<or> t = TGe then Some 3
      else None)"

text \<open>
  The parser descends by level; its first argument bounds the number of calls, and a
  text that needs more is not covered.
\<close>

fun parse :: "nat \<Rightarrow> nat \<Rightarrow> token list \<Rightarrow> (expr \<times> token list) option"
  and climb :: "nat \<Rightarrow> nat \<Rightarrow> expr \<Rightarrow> token list \<Rightarrow> (expr \<times> token list) option" where
  "parse 0 lv ts = None"
| "parse (Suc f) lv ts =
     (if lv < 4 then
        (case parse f (Suc lv) ts of
           None \<Rightarrow> None
         | Some (l, rest) \<Rightarrow> climb f lv l rest)
      else
        (case ts of
           [] \<Rightarrow> None
         | TNot # rest \<Rightarrow>
             (case parse f 4 rest of
                None \<Rightarrow> None
              | Some (e, rest') \<Rightarrow> Some (Not e, rest'))
         | TLParen # rest \<Rightarrow>
             (case parse f 0 rest of
                Some (e, TRParen # rest') \<Rightarrow> Some (e, rest')
              | _ \<Rightarrow> None)
         | TStr s # rest \<Rightarrow> Some (Lit (JStr s), rest)
         | TNum n # rest \<Rightarrow> Some (Lit (JNum n), rest)
         | TTrue # rest \<Rightarrow> Some (Lit (JBool True), rest)
         | TFalse # rest \<Rightarrow> Some (Lit (JBool False), rest)
         | TNull # rest \<Rightarrow> Some (Lit JNull, rest)
         | TIdent x # rest \<Rightarrow> Some (Ident x, rest)
         | _ \<Rightarrow> None))"
| "climb 0 lv l ts = None"
| "climb (Suc f) lv l ts =
     (case ts of
        [] \<Rightarrow> Some (l, [])
      | t # rest \<Rightarrow>
          if op_level t = Some lv then
            (case parse f (Suc lv) rest of
               None \<Rightarrow> None
             | Some (r, rest') \<Rightarrow> climb f lv (Bin t l r) rest')
          else Some (l, ts))"

text \<open>
  Comparison of two primitive values of one type; \<open>null\<close> and \<open>undefined\<close> are loosely
  equal to each other and to nothing else. Comparisons that convert an operand are not
  covered.
\<close>

fun is_primitive :: "jsval \<Rightarrow> bool" where
  "is_primitive (JArr xs) = False"
| "is_primitive (JObj ps) = False"
| "is_primitive JHole = False"
| "is_primitive v = True"

fun loose_eq :: "jsval \<Rightarrow> jsval \<Rightarrow> bool option" where
  "loose_eq (JStr a) (JStr b) = Some (a = b)"
| "loose_eq (JNum a) (JNum b) = Some (a = b)"
| "loose_eq (JBool a) (JBool b) = Some (a = b)"
| "loose_eq JNull b = (if is_primitive b then Some (b = JNull \<or> b = JUndef) else None)"
| "loose_eq JUndef b = (if is_primitive b then Some (b = JNull \<or> b = JUndef) else None)"
| "loose_eq a JNull = (if is_primitive a then Some False else None)"
| "loose_eq a JUndef = (if is_primitive a then Some False else None)"
| "loose_eq a b = None"

definition compare_op :: "token \<Rightarrow> jsval \<Rightarrow> jsval \<Rightarrow> host_result" where
  "compare_op t x y =
     (if t = TEq then (case loose_eq x y of Some b \<Rightarrow> Returned (JBool b) | None \<Rightarrow> Beyond)
      else if t = TNe then (case loose_eq x y of Some b \<Rightarrow> Returned (JBool (\<not> b)) | None \<Rightarrow> Beyond)
      else (case (x, y) of
              (JNum a, JNum b) \<Rightarrow>
                if t = TLt then Returned (JBool (a < b))
                else if t = TLe then Returned (JBool (a \<le> b))
                else if t = TGt then Returned (JBool (a > b))
                else if t = TGe then Returned (JBool (a \<ge> b))
                else Beyond
            | _ \<Rightarrow> Beyond))"

fun eval_expr :: "(string \<Rightarrow> jsval option) \<Rightarrow> expr \<Rightarrow> host_result" where
  "eval_expr G (Lit v) = Returned v"
| "eval_expr G (Ident x) = (case G x of Some v \<Rightarrow> Returned v | None \<Rightarrow> Threw)"
| "eval_expr G (Not e) =
     (case eval_expr G e of
        Returned v \<Rightarrow> Returned (JBool (\<not> truthy v))
      | Threw \<Rightarrow> Threw
      | Beyond \<Rightarrow> Beyond)"
| "eval_expr G (Bin t a b) =
     (case eval_expr G a of
        Returned x \<Rightarrow>
          if t = TOr then (if truthy x then Returned x else eval_expr G b)
          else if t = TAnd then (if truthy x then eval_expr G b else Returned x)
          else (case eval_expr G b of
                  Returned y \<Rightarrow> compare_op t x y
                | Threw \<Rightarrow> Threw
                | Beyond \<Rightarrow> Beyond)
      | Threw \<Rightarrow> Threw
      | Beyond \<Rightarrow> Beyond)"

definition comparison_host :: "(string \<Rightarrow> jsval option) \<Rightarrow> string \<Rightarrow> host_result" where
  "comparison_host G text =
     (if startsWith text ''\"use strict\"; return '' then
        (case lex (drop (length ''\"use strict\"; return '') text) of
           None \<Rightarrow> Beyond
         | Some ts \<Rightarrow>
             (case parse (10 * length ts + 10) 0 ts of
                Some (e, []) \<Rightarrow> eval_expr G e
              | _ \<Rightarrow> Beyond))
      else Beyond)"

text \<open>A global scope that binds \<open>undefined\<close> and nothing else.\<close>

definition bare_globals :: "string \<Rightarrow> jsval option" where
  "bare_globals x = (if x = ''undefined'' then Some JUndef else None)"

text \<open>
  \<^verbatim>\<open>querySelectorAll\<close> for a selector that is a tag name: the elements of that name
  among the nodes and their descendants, in document order.
\<close>

fun subtree_elements :: "node \<Rightarrow> node list" where
  "subtree_elements (Element t as st cs) =
     Element t as st cs # concat (map subtree_elements cs)"
| "subtree_elements (Text s) = []"

definition type_selector :: "string \<Rightarrow> node list \<Rightarrow> node list" where
  "type_selector sel content =
     filter (\<lambda>e. tagName e = sel) (concat (map subtree_elements content))"

definition bare_host :: host where
  "bare_host =
     \<lparr> Function_call = comparison_host bare_globals, baseURI = ''http://localhost/'',
       querySelectorAll = type_selector \<rparr>"

section \<open>Form data\<close>

text \<open>
  \<^verbatim>\<open>key in v\<close>. On a primitive value the operator throws. A record holds its own keys
  and the inherited ones.
\<close>

fun has_prop :: "jsval \<Rightarrow> string \<Rightarrow> error + bool" where
  "has_prop (JObj ps) k = Inr (map_of ps k \<noteq> None \<or> k \<in> set object_prototype_names)"
| "has_prop (JArr xs) k =
     (if k = ''length'' then Inr True
      else case array_index k of
             Some i \<Rightarrow> Inr (i < length xs \<and> xs ! i \<noteq> JHole)
           | None \<Rightarrow> if identifier_like k then Inl NotModelled else Inr False)"
| "has_prop v k = Inl TypeError"

text \<open>
  \<^verbatim>\<open>v[key] = w\<close> in strict code (a module is strict). A record takes the value in place
  of the old one, or as a new last property. An array takes it in the slot of an index,
  growing by holes when the index lies beyond its end; its named properties, and indices
  of ten digits or more, are not modelled. A primitive value takes no property: the assignment throws.
\<close>

fun set_prop :: "jsval \<Rightarrow> string \<Rightarrow> jsval \<Rightarrow> error + jsval" where
  "set_prop (JObj ps) k w =
     (if k = ''__proto__'' then Inl NotModelled else Inr (JObj (update_key k w ps)))"
| "set_prop (JArr xs) k w =
     (case array_index k of
        Some i \<Rightarrow>
          if 9 < length k then Inl NotModelled
          else if i < length xs then Inr (JArr (xs[i := w]))
          else Inr (JArr (xs @ replicate (i - length xs) JHole @ [w]))
      | None \<Rightarrow> Inl NotModelled)"
| "set_prop v k w = Inl TypeError"

text \<open>
  The parts of a path: \<^verbatim>\<open>split\<close> at the separators, then \<^verbatim>\<open>filter(Boolean)\<close>, which
  drops the empty parts. What is left are the maximal runs of other characters.
\<close>

fun path_fields :: "(char \<Rightarrow> bool) \<Rightarrow> string \<Rightarrow> string \<Rightarrow> string list" where
  "path_fields sep cur [] = (if cur = [] then [] else [cur])"
| "path_fields sep cur (c # cs) =
     (if sep c then (if cur = [] then [] else [cur]) @ path_fields sep [] cs
      else path_fields sep (cur @ [c]) cs)"

definition split_dots :: "string \<Rightarrow> string list" where
  "split_dots p = path_fields (\<lambda>c. c = CHR ''.'') [] p"

definition split_dots_brackets :: "string \<Rightarrow> string list" where
  "split_dots_brackets p = path_fields (\<lambda>c. c = CHR ''.'' \<or> c = CHR ''['' \<or> c = CHR '']'') [] p"

definition all_digits :: "string \<Rightarrow> bool" where
  "all_digits p = (p \<noteq> [] \<and> list_all is_digit p)"

text \<open>
  The walk \<^verbatim>\<open>current = current[part]\<close> along the parts before the last, each paired
  with the container to create where the part is missing, followed by the action on the
  last container. The containers are reached by reference in the source; here the
  changed child is written back into its parent.
\<close>

fun walk :: "jsval \<Rightarrow> (string \<times> jsval) list \<Rightarrow> (jsval \<Rightarrow> error + jsval) \<Rightarrow> error + jsval" where
  "walk current [] act = act current"
| "walk current ((part, fresh) # rest) act =
     (case has_prop current part of
        Inl e \<Rightarrow> Inl e
      | Inr present \<Rightarrow>
          (case (if present then Inr current else set_prop current part fresh) of
             Inl e \<Rightarrow> Inl e
           | Inr current1 \<Rightarrow>
               (case get_prop current1 part of
                  Inl e \<Rightarrow> Inl e
                | Inr child \<Rightarrow>
                    (case walk child rest act of
                       Inl e \<Rightarrow> Inl e
                     | Inr child' \<Rightarrow> set_prop current1 part child'))))"

text \<open>The last step of the branch for \<^verbatim>\<open>[]\<close>: create the array if need be, then \<^verbatim>\<open>push\<close>.\<close>

definition push_at :: "string \<Rightarrow> jsval \<Rightarrow> jsval \<Rightarrow> error + jsval" where
  "push_at arrayKey w current =
     (case get_prop current arrayKey of
        Inl e \<Rightarrow> Inl e
      | Inr old \<Rightarrow>
          (case old of
             JArr xs \<Rightarrow> set_prop current arrayKey (JArr (xs @ [w]))
           | _ \<Rightarrow> set_prop current arrayKey (JArr [w])))"

text \<open>
  The parts before the last, with the container that the second branch creates for
  each: an array when the next part is a number, a record otherwise.
\<close>

fun with_containers :: "string list \<Rightarrow> (string \<times> jsval) list" where
  "with_containers (part # nextPart # rest) =
     (part, if all_digits nextPart then JArr [] else JObj []) # with_containers (nextPart # rest)"
| "with_containers parts = []"

definition last_or_undefined :: "string list \<Rightarrow> string" where
  "last_or_undefined parts = (if parts = [] then ''undefined'' else last parts)"

definition setNestedProperty :: "jsval \<Rightarrow> string \<Rightarrow> jsval \<Rightarrow> error + jsval" where
  "setNestedProperty obj path w =
     (if str_includes path ''[]'' then
        (let arrayPath = replace_first ''[]'' '''' path;
             parts = split_dots arrayPath
         in walk obj (map (\<lambda>part. (part, JObj [])) (butlast parts))
              (push_at (last_or_undefined parts) w))
      else
        (let parts = split_dots_brackets path
         in walk obj (with_containers parts)
              (\<lambda>current. set_prop current (last_or_undefined parts) w)))"

text \<open>
  \<^verbatim>\<open>_extractFromFormData\<close> over the entries of the form in their order. The values of the
  entries are strings.
\<close>

fun set_entries :: "jsval \<Rightarrow> (string \<times> string) list \<Rightarrow> error + jsval" where
  "set_entries data [] = Inr data"
| "set_entries data ((key, w) # rest) =
     (case setNestedProperty data key (JStr w) of
        Inl e \<Rightarrow> Inl e
      | Inr data' \<Rightarrow> set_entries data' rest)"

definition extractFromFormData :: "(string \<times> string) list \<Rightarrow> error + jsval" where
  "extractFromFormData entries = set_entries (JObj []) entries"

text \<open>A key of a form entry without separators: no dot and no bracket.\<close>

definition plain_key :: "string \<Rightarrow> bool" where
  "plain_key k = (k \<noteq> [] \<and> k \<noteq> ''__proto__'' \<and>
      list_all (\<lambda>c. c \<noteq> CHR ''.'' \<and> c \<noteq> CHR ''['' \<and> c \<noteq> CHR '']'') k)"

section \<open>Rendering\<close>

subsection \<open>Writing to an element\<close>

fun setAttribute :: "node \<Rightarrow> string \<Rightarrow> string \<Rightarrow> node" where
  "setAttribute (Element t as st cs) name v = Element t (update_key name v as) st cs"
| "setAttribute (Text s) name v = Text s"

fun removeAttribute :: "node \<Rightarrow> string \<Rightarrow> node" where
  "removeAttribute (Element t as st cs) name = Element t (filter (\<lambda>(n, v). n \<noteq> name) as) st cs"
| "removeAttribute (Text s) name = Text s"

text \<open>
  An assignment to a property of the element, such as \<^verbatim>\<open>element.checked = true\<close>. The
  assignment is recorded; what the host makes of it is not modelled.
\<close>

fun set_state :: "node \<Rightarrow> string \<Rightarrow> jsval \<Rightarrow> node" where
  "set_state (Element t as st cs) name v = Element t as (update_key name v st) cs"
| "set_state (Text s) name v = Text s"

text \<open>\<^verbatim>\<open>element.textContent = s\<close>: the children become one text node, or none for the empty text.\<close>

fun set_text :: "node \<Rightarrow> string \<Rightarrow> node" where
  "set_text (Element t as st cs) s = Element t as st (if s = [] then [] else [Text s])"
| "set_text (Text x) s = Text s"

fun set_childNodes :: "node \<Rightarrow> node list \<Rightarrow> node" where
  "set_childNodes (Element t as st cs) kids = Element t as st kids"
| "set_childNodes (Text x) kids = Text x"

text \<open>The text that \<^verbatim>\<open>textContent\<close> takes from a value: none from \<open>null\<close> and \<open>undefined\<close>.\<close>

definition content_text :: "jsval \<Rightarrow> error + string" where
  "content_text v = (if v = JNull \<or> v = JUndef then Inr [] else to_string v)"

definition ascii_lower :: "char \<Rightarrow> char" where
  "ascii_lower c =
     (let n = (of_char c :: nat) in if 65 \<le> n \<and> n \<le> 90 then char_of (n + 32) else c)"

definition is_checkable :: "node \<Rightarrow> bool" where
  "is_checkable e =
     (case getAttribute e ''type'' of
        Some t \<Rightarrow> map ascii_lower t = ''checkbox'' \<or> map ascii_lower t = ''radio''
      | None \<Rightarrow> False)"

text \<open>
  \<^verbatim>\<open>input.type\<close> is \<open>file\<close>. Assigning to \<^verbatim>\<open>value\<close> of such an input throws an
  \<^verbatim>\<open>InvalidStateError\<close> unless the text assigned is empty.
\<close>

definition is_file :: "node \<Rightarrow> bool" where
  "is_file e =
     (case getAttribute e ''type'' of
        Some t \<Rightarrow> map ascii_lower t = ''file''
      | None \<Rightarrow> False)"

fun map_result :: "('a \<Rightarrow> error + 'b) \<Rightarrow> 'a list \<Rightarrow> error + 'b list" where
  "map_result f [] = Inr []"
| "map_result f (x # xs) =
     (case f x of
        Inl e \<Rightarrow> Inl e
      | Inr y \<Rightarrow> (case map_result f xs of Inl e \<Rightarrow> Inl e | Inr ys \<Rightarrow> Inr (y # ys)))"

text \<open>
  \<^verbatim>\<open>option.value\<close>: the attribute \<open>value\<close>, or else the text of the option. The host
  strips and collapses the white space of that text; a text with white space or with
  elements in it is not modelled.
\<close>

fun plain_text :: "node list \<Rightarrow> string option" where
  "plain_text [] = Some []"
| "plain_text (Text s # ns) =
     (if list_ex (\<lambda>c. c = CHR '' '' \<or> c = CHR 0x09 \<or> c = CHR 0x0A \<or> c = CHR 0x0C \<or> c = CHR 0x0D) s
      then None
      else map_option (\<lambda>r. s @ r) (plain_text ns))"
| "plain_text (Element t as st cs # ns) = None"

definition option_value :: "node \<Rightarrow> error + string" where
  "option_value opt =
     (case getAttribute opt ''value'' of
        Some v \<Rightarrow> Inr v
      | None \<Rightarrow> (case plain_text (childNodes opt) of Some s \<Rightarrow> Inr s | None \<Rightarrow> Inl NotModelled))"

definition mark_option :: "jsval \<Rightarrow> node \<Rightarrow> error + node" where
  "mark_option v opt =
     (case option_value opt of
        Inl e \<Rightarrow> Inl e
      | Inr ov \<Rightarrow>
          Inr (if v = JStr ov
               then setAttribute (set_state opt ''selected'' (JBool True)) ''selected'' ''selected''
               else removeAttribute (set_state opt ''selected'' (JBool False)) ''selected''))"

text \<open>
  \<^verbatim>\<open>select.options\<close> are the \<open>option\<close> children of the \<open>select\<close> and of its \<open>optgroup\<close>
  children.
\<close>

definition mark_in_group :: "jsval \<Rightarrow> node \<Rightarrow> error + node" where
  "mark_in_group v n =
     (if is_element n \<and> tagName n = ''option'' then mark_option v n else Inr n)"

definition mark_in_select :: "jsval \<Rightarrow> node \<Rightarrow> error + node" where
  "mark_in_select v n =
     (if is_element n \<and> tagName n = ''option'' then mark_option v n
      else if is_element n \<and> tagName n = ''optgroup'' then
        (case map_result (mark_in_group v) (childNodes n) of
           Inl e \<Rightarrow> Inl e
         | Inr kids \<Rightarrow> Inr (set_childNodes n kids))
      else Inr n)"

definition set_attribute_value :: "node \<Rightarrow> string \<Rightarrow> jsval \<Rightarrow> error + node" where
  "set_attribute_value e name v =
     (case to_string v of Inl err \<Rightarrow> Inl err | Inr s \<Rightarrow> Inr (setAttribute e name s))"

text \<open>
  \<^verbatim>\<open>_setElementValue\<close>, by tag name. The assignment \<^verbatim>\<open>element.value = value\<close> of an
  input converts \<open>null\<close> to the empty text and every other value with \<^verbatim>\<open>String\<close>.
\<close>

definition setElementValue :: "node \<Rightarrow> jsval \<Rightarrow> error + node" where
  "setElementValue e v =
     (let tag = tagName e in
      if tag = ''input'' then
        (if is_checkable e then
           Inr (if truthy v
                then setAttribute (set_state e ''checked'' (JBool True)) ''checked'' ''checked''
                else removeAttribute (set_state e ''checked'' (JBool False)) ''checked'')
         else
           (case (if v = JNull then Inr [] else to_string v) of
              Inl err \<Rightarrow> Inl err
            | Inr s \<Rightarrow>
                if is_file e \<and> s \<noteq> [] then Inl InvalidStateError
                else set_attribute_value (set_state e ''value'' v) ''value'' v))
      else if tag = ''textarea'' then
        (case content_text v of
           Inl err \<Rightarrow> Inl err
         | Inr s \<Rightarrow> Inr (set_state (set_text e s) ''value'' v))
      else if tag = ''select'' then
        (case map_result (mark_in_select v) (childNodes e) of
           Inl err \<Rightarrow> Inl err
         | Inr kids \<Rightarrow> Inr (set_childNodes e kids))
      else if tag = ''option'' then Inr (set_state e ''selected'' (JBool (truthy v)))
      else if tag = ''output'' then
        (case to_string v of
           Inl err \<Rightarrow> Inl err
         | Inr s \<Rightarrow> Inr (set_state (set_text e s) ''value'' v))
      else if tag = ''meta'' then set_attribute_value e ''content'' v
      else if tag = ''img'' then set_attribute_value e ''src'' v
      else if tag = ''link'' then set_attribute_value e ''href'' v
      else if tag = ''audio'' \<or> tag = ''video'' \<or> tag = ''source'' then set_attribute_value e ''src'' v
      else if tag = ''object'' then set_attribute_value e ''data'' v
      else if tag = ''embed'' \<or> tag = ''iframe'' then set_attribute_value e ''src'' v
      else if tag = ''time'' then set_attribute_value e ''datetime'' v
      else if tag = ''data'' \<or> tag = ''meter'' \<or> tag = ''progress'' then set_attribute_value e ''value'' v
      else (case content_text v of Inl err \<Rightarrow> Inl err | Inr s \<Rightarrow> Inr (set_text e s)))"

subsection \<open>Attribute templates\<close>

text \<open>
  \<^verbatim>\<open>_replaceAttributeVariables\<close>: every \<^verbatim>\<open>${word}\<close> becomes the text of the property of
  that name, and stays as it is when the property is \<open>undefined\<close>.
\<close>

function replaceAttributeVariables :: "string \<Rightarrow> jsval \<Rightarrow> error + string" where
  "replaceAttributeVariables [] data = Inr []"
| "replaceAttributeVariables (c # cs) data =
     (if c = CHR ''$'' \<and> startsWith cs ''{'' \<and> takeWhile is_word_char (tl cs) \<noteq> []
          \<and> startsWith (dropWhile is_word_char (tl cs)) ''}''
      then
        (case get_prop data (takeWhile is_word_char (tl cs)) of
           Inl e \<Rightarrow> Inl e
         | Inr v \<Rightarrow>
             (case (if v \<noteq> JUndef then to_string v
                    else Inr (''${'' @ takeWhile is_word_char (tl cs) @ ''}'')) of
                Inl e \<Rightarrow> Inl e
              | Inr r \<Rightarrow>
                  (case replaceAttributeVariables (tl (dropWhile is_word_char (tl cs))) data of
                     Inl e \<Rightarrow> Inl e
                   | Inr out \<Rightarrow> Inr (r @ out))))
      else
        (case replaceAttributeVariables cs data of
           Inl e \<Rightarrow> Inl e
         | Inr out \<Rightarrow> Inr (c # out)))"
  by pat_completeness auto
termination
proof (relation "measure (\<lambda>(t, d). length t)")
  fix c :: char and cs :: string
  have "length (dropWhile is_word_char (tl cs)) \<le> length (tl cs)"
    by (rule length_dropWhile_le)
  then have "length (tl (dropWhile is_word_char (tl cs))) < Suc (length cs)"
    by simp
  then show "\<And>data. ((tl (dropWhile is_word_char (tl cs)), data), (c # cs, data))
               \<in> measure (\<lambda>(t, d). length t)"
    by simp
qed auto

text \<open>The loop over \<^verbatim>\<open>Object.entries(structure.attributes)\<close>.\<close>

fun apply_attributes :: "(string \<times> string) list \<Rightarrow> jsval \<Rightarrow> node \<Rightarrow> error + node" where
  "apply_attributes [] data e = Inr e"
| "apply_attributes ((attrName, attrValue) # rest) data e =
     (case replaceAttributeVariables attrValue data of
        Inl err \<Rightarrow> Inl err
      | Inr newValue \<Rightarrow> apply_attributes rest data (setAttribute e attrName newValue))"

subsection \<open>Processing an element\<close>

text \<open>
  The first part of \<^verbatim>\<open>_processElement\<close>, up to the point where the element is removed,
  handed to \<^verbatim>\<open>_processScopeArray\<close>, or processed further with the record that the
  constraint may have resolved. \<^verbatim>\<open>_resolveReference\<close> always returns \<open>null\<close>, so that the
  attribute \<open>scope\<close> changes nothing.
\<close>

datatype gate = Remove "warning list" | ScopeMatches "jsval list" | Proceed jsval "warning list"

definition resolveReference :: "string \<Rightarrow> jsval \<Rightarrow> render_context \<Rightarrow> jsval option" where
  "resolveReference reference data ctx = None"

definition check_constraints :: "host \<Rightarrow> analysis \<Rightarrow> jsval \<Rightarrow> render_context \<Rightarrow> error + gate" where
  "check_constraints h s data ctx =
     (if truthy_str (a_dataScope s) \<or> truthy_str (a_dataConstraint s) then
        (if truthy_str (a_dataScope s) then
           (case findScopeMatches (the (a_dataScope s)) data ctx of
              Inl e \<Rightarrow> Inl e
            | Inr matches \<Rightarrow> Inr (if matches \<noteq> [] then ScopeMatches matches else Remove []))
         else
           (case evaluateConstraint h s data ctx of
              Inl e \<Rightarrow> Inl e
            | Inr (c, resolved, w) \<Rightarrow>
                if \<not> truthy c then Inr (Remove w)
                else Inr (Proceed (case resolved of Some m \<Rightarrow> m | None \<Rightarrow> data) w)))
      else Inr (Proceed data []))"

definition apply_scope :: "analysis \<Rightarrow> jsval \<Rightarrow> render_context \<Rightarrow> jsval" where
  "apply_scope s data ctx =
     (if truthy_str (a_scope s) then
        (case resolveReference (the (a_scope s)) data ctx of
           Some referencedData \<Rightarrow> referencedData
         | None \<Rightarrow> data)
      else data)"

text \<open>\<^verbatim>\<open>typeof v === 'object'\<close>.\<close>

fun typeof_object :: "jsval \<Rightarrow> bool" where
  "typeof_object (JObj ps) = True"
| "typeof_object (JArr xs) = True"
| "typeof_object JNull = True"
| "typeof_object v = False"

text \<open>
  The element that takes the place of the \<open>i\<close>-th element child among the child nodes
  when that child removes itself or puts clones where it stood.
\<close>

fun replace_child :: "nat \<Rightarrow> node list \<Rightarrow> node list \<Rightarrow> node list" where
  "replace_child i repl [] = []"
| "replace_child i repl (k # ks) =
     (if is_element k then
        (case i of 0 \<Rightarrow> repl @ ks | Suc j \<Rightarrow> k # replace_child j repl ks)
      else k # replace_child i repl ks)"

text \<open>The last step of \<^verbatim>\<open>_processElement\<close>: the attribute \<open>itemid\<close>.\<close>

definition add_itemid :: "host \<Rightarrow> jsval \<Rightarrow> node \<Rightarrow> error + node" where
  "add_itemid h data e =
     (if truthy data then
        (case get_prop data ''@id'' of
           Inl err \<Rightarrow> Inl err
         | Inr i \<Rightarrow>
             if truthy i \<and> hasAttribute e ''itemscope'' then
               (case to_string i of
                  Inl err \<Rightarrow> Inl err
                | Inr idText \<Rightarrow> Inr (setAttribute e ''itemid'' (baseURI h @ ''#'' @ idText)))
             else Inr e)
      else Inr e)"

text \<open>
  \<^verbatim>\<open>_processElement\<close>, \<^verbatim>\<open>_processArray\<close> and \<^verbatim>\<open>_processScopeArray\<close>. The source changes
  the element and its place among its siblings; the model returns the nodes that stand
  in the element's place afterwards, and the warnings. \<open>hp\<close> tells whether the element
  has a parent: the root of a render has none, so that \<^verbatim>\<open>remove\<close> leaves it where it is
  and the insertion of a clone throws.

  The three loops of the form
  \<^verbatim>\<open>for (i = 0; i < element.children.length; i++) process(element.children[i], structure.children[i])\<close>
  are \<open>processChildren\<close>: the children are read anew in every round, after the rounds
  before have removed or added siblings, and a round without a structure does nothing.
\<close>

function processElement ::
    "host \<Rightarrow> bool \<Rightarrow> node \<Rightarrow> analysis \<Rightarrow> jsval \<Rightarrow> render_context \<Rightarrow> error + (node list \<times> warning list)"
  and processChildren ::
    "host \<Rightarrow> nat \<Rightarrow> node list \<Rightarrow> analysis list \<Rightarrow> jsval \<Rightarrow> render_context \<Rightarrow> error + (node list \<times> warning list)"
  and processArrayItems ::
    "host \<Rightarrow> bool \<Rightarrow> node \<Rightarrow> analysis \<Rightarrow> jsval list \<Rightarrow> render_context \<Rightarrow> error + (node list \<times> warning list)"
  and processScopeArray ::
    "host \<Rightarrow> bool \<Rightarrow> node \<Rightarrow> analysis \<Rightarrow> jsval list \<Rightarrow> render_context \<Rightarrow> error + (node list \<times> warning list)"
where
  "processElement h hp el s data0 ctx =
     (case check_constraints h s data0 ctx of
        Inl e \<Rightarrow> Inl e
      | Inr (Remove w) \<Rightarrow> Inr (if hp then [] else [el], w)
      | Inr (ScopeMatches matches) \<Rightarrow>
          (case processScopeArray h hp el s matches ctx of
             Inl e \<Rightarrow> Inl e
           | Inr (clones, w) \<Rightarrow> Inr (if hp then clones else [el], w))
      | Inr (Proceed data1 w0) \<Rightarrow>
          (let data = apply_scope s data1 ctx in
           case (if a_isArray s \<and> truthy_str (a_cleanItemprop s)
                 then get_prop data (the (a_cleanItemprop s)) else Inr JUndef) of
             Inl e \<Rightarrow> Inl e
           | Inr arrayData \<Rightarrow>
               if truthy arrayData then
                 (case arrayData of
                    JArr xs \<Rightarrow>
                      (case processArrayItems h hp el s (map read_slot xs) ctx of
                         Inl e \<Rightarrow> Inl e
                       | Inr (clones, w) \<Rightarrow> Inr (if hp then clones else [el], w0 @ w))
                  | _ \<Rightarrow> Inr ([el], w0 @ [ExpectedArray (a_cleanItemprop s)]))
               else
                 (case apply_attributes (a_attributes s) data el of
                    Inl e \<Rightarrow> Inl e
                  | Inr el1 \<Rightarrow>
                      (case (if truthy_str (a_cleanItemprop s) then
                               (case get_prop data (the (a_cleanItemprop s)) of
                                  Inl e \<Rightarrow> Inl e
                                | Inr v \<Rightarrow>
                                    (case (if v \<noteq> JUndef then
                                             (if a_itemscope s \<and> typeof_object v \<and> \<not> isArray_val v then
                                                (case processChildren h 0 (childNodes el1) (a_children s) v
                                                        (ctx\<lparr>currentData := v\<rparr>) of
                                                   Inl e \<Rightarrow> Inl e
                                                 | Inr (kids, w) \<Rightarrow> Inr (set_childNodes el1 kids, w))
                                              else
                                                (case setElementValue el1 v of
                                                   Inl e \<Rightarrow> Inl e
                                                 | Inr el2 \<Rightarrow> Inr (el2, [])))
                                           else Inr (el1, [])) of
                                       Inl e \<Rightarrow> Inl e
                                     | Inr (el2, w) \<Rightarrow>
                                         Inr (if a_isArray s
                                              then setAttribute el2 ''itemprop'' (the (a_cleanItemprop s))
                                              else el2, w)))
                             else
                               (case processChildren h 0 (childNodes el1) (a_children s) data ctx of
                                  Inl e \<Rightarrow> Inl e
                                | Inr (kids, w) \<Rightarrow> Inr (set_childNodes el1 kids, w))) of
                         Inl e \<Rightarrow> Inl e
                       | Inr (el3, w) \<Rightarrow>
                           (case add_itemid h data el3 of
                              Inl e \<Rightarrow> Inl e
                            | Inr el4 \<Rightarrow> Inr ([el4], w0 @ w))))))"
| "processChildren h i kids [] data ctx = Inr (kids, [])"
| "processChildren h i kids (s # ss) data ctx =
     (if i < length (filter is_element kids) then
        (case processElement h True (filter is_element kids ! i) s data ctx of
           Inl e \<Rightarrow> Inl e
         | Inr (repl, w) \<Rightarrow>
             (case processChildren h (Suc i) (replace_child i repl kids) ss data ctx of
                Inl e \<Rightarrow> Inl e
              | Inr (kids', w') \<Rightarrow> Inr (kids', w @ w')))
      else Inr (kids, []))"
| "processArrayItems h hp el s [] ctx = Inr ([], [])"
| "processArrayItems h hp el s (item # items) ctx =
     (let newElement = (if a_isArray s then setAttribute el ''itemprop'' (the (a_cleanItemprop s)) else el) in
      case (if typeof_object item \<and> a_children s \<noteq> [] then
              (case processChildren h 0 (childNodes newElement) (a_children s) item
                      (ctx\<lparr>currentData := item\<rparr>) of
                 Inl e \<Rightarrow> Inl e
               | Inr (kids, w) \<Rightarrow> Inr (set_childNodes newElement kids, w))
            else
              (case setElementValue newElement item of
                 Inl e \<Rightarrow> Inl e
               | Inr el1 \<Rightarrow> Inr (el1, []))) of
        Inl e \<Rightarrow> Inl e
      | Inr (el1, w) \<Rightarrow>
          if \<not> hp then Inl TypeError
          else
            (case processArrayItems h hp el s items ctx of
               Inl e \<Rightarrow> Inl e
             | Inr (clones, w') \<Rightarrow> Inr (el1 # clones, w @ w')))"
| "processScopeArray h hp el s [] ctx = Inr ([], [])"
| "processScopeArray h hp el s (match # matches) ctx =
     (case processChildren h 0 (childNodes el) (a_children s) match (ctx\<lparr>currentData := match\<rparr>) of
        Inl e \<Rightarrow> Inl e
      | Inr (kids, w) \<Rightarrow>
          (case (if truthy_str (a_cleanItemprop s) then
                   (case get_prop match (the (a_cleanItemprop s)) of
                      Inl e \<Rightarrow> Inl e
                    | Inr v \<Rightarrow>
                        if v \<noteq> JUndef then setElementValue (set_childNodes el kids) v
                        else Inr (set_childNodes el kids))
                 else Inr (set_childNodes el kids)) of
             Inl e \<Rightarrow> Inl e
           | Inr el1 \<Rightarrow>
               if \<not> hp then Inl TypeError
               else
                 (case processScopeArray h hp el s matches ctx of
                    Inl e \<Rightarrow> Inl e
                  | Inr (clones, w') \<Rightarrow> Inr (el1 # clones, w @ w'))))"
  by pat_completeness auto
termination
proof -
  have sz: "size_list size (a_children s) < size s" for s :: analysis
    by (cases s) simp
  show ?thesis
    by (relation "measures
        [\<lambda>x. case x of
               Inl (Inl (h, hp, el, s, d, c)) \<Rightarrow> size s
             | Inl (Inr (h, i, kids, ss, d, c)) \<Rightarrow> size_list size ss
             | Inr (Inl (h, hp, el, s, items, c)) \<Rightarrow> size s
             | Inr (Inr (h, hp, el, s, items, c)) \<Rightarrow> size s,
         \<lambda>x. case x of
               Inl (Inl (h, hp, el, s, d, c)) \<Rightarrow> 1
             | Inl (Inr (h, i, kids, ss, d, c)) \<Rightarrow> 0
             | Inr (Inl (h, hp, el, s, items, c)) \<Rightarrow> 0
             | Inr (Inr (h, hp, el, s, items, c)) \<Rightarrow> 0,
         \<lambda>x. case x of
               Inl (Inl (h, hp, el, s, d, c)) \<Rightarrow> 0
             | Inl (Inr (h, i, kids, ss, d, c)) \<Rightarrow> 0
             | Inr (Inl (h, hp, el, s, items, c)) \<Rightarrow> length items
             | Inr (Inr (h, hp, el, s, items, c)) \<Rightarrow> length items]")
       (auto simp: sz)
qed 

subsection \<open>The template instance\<close>

text \<open>
  The fields of an \<^verbatim>\<open>HTMLTemplate\<close> object. \<open>templateContent\<close> are the child nodes of the
  content of the template element; \<open>lastRenderData\<close> is \<open>None\<close> until the first render.
\<close>

record template_instance =
  templateContent :: "node list"
  selector :: "string option"
  templateCache :: "root_entry list"
  lastRenderData :: "jsval option"

text \<open>\<^verbatim>\<open>_parseTemplate\<close>: the roots and their analysis.\<close>

definition parseTemplate :: "host \<Rightarrow> node list \<Rightarrow> string option \<Rightarrow> root_entry list" where
  "parseTemplate h content sel =
     (let rootElements =
            (if selector_given sel then querySelectorAll h (the sel) content
             else (let typed = filter (\<lambda>el. hasAttribute el ''itemtype'') (filter is_element content)
                   in if typed = [] then filter is_element content else typed))
      in map make_root rootElements)"

text \<open>
  The constructor. Its first argument is the content of a template element, or something
  that is no template element, for which the constructor throws.
\<close>

datatype template_argument = TemplateElement "node list" | NoTemplateElement

datatype config_error = NotATemplateElement

definition HTMLTemplate ::
  "host \<Rightarrow> template_argument \<Rightarrow> string option \<Rightarrow> config_error + template_instance" where
  "HTMLTemplate h arg sel =
     (case arg of
        NoTemplateElement \<Rightarrow> Inl NotATemplateElement
      | TemplateElement content \<Rightarrow>
          Inr \<lparr> templateContent = content, selector = sel,
                templateCache = parseTemplate h content sel, lastRenderData = None \<rparr>)"

text \<open>
  \<^verbatim>\<open>_extractDataFromSource\<close> for the sources that are values: \<open>null\<close> and \<open>undefined\<close>
  become the empty record, an array is converted item by item, everything else is
  taken as it is. Elements and forms as sources are not part of this function here; the
  entries of a form are normalised by \<open>extractFromFormData\<close>.
\<close>

fun extractDataFromSource :: "jsval \<Rightarrow> jsval" where
  "extractDataFromSource JUndef = JObj []"
| "extractDataFromSource JNull = JObj []"
| "extractDataFromSource JHole = JObj []"
| "extractDataFromSource (JArr xs) =
     JArr (map (\<lambda>x. if x = JHole then JHole else extractDataFromSource x) xs)"
| "extractDataFromSource (JBool b) = JBool b"
| "extractDataFromSource (JNum n) = JNum n"
| "extractDataFromSource (JStr s) = JStr s"
| "extractDataFromSource (JObj ps) = JObj ps"

text \<open>
  \<^verbatim>\<open>_renderSingle\<close>: the element rendered for a record, or \<open>None\<close> for the \<open>null\<close> of a
  record without template.
\<close>

definition renderSingle ::
  "host \<Rightarrow> template_instance \<Rightarrow> jsval \<Rightarrow> error + (node option \<times> warning list)" where
  "renderSingle h inst data =
     (case matchingTemplate (templateCache inst) (selector inst) data of
        Inl e \<Rightarrow> Inl e
      | Inr SkippedTyped \<Rightarrow> Inr (None, [])
      | Inr NoTemplate \<Rightarrow> Inr (None, [NoMatchingTemplate data])
      | Inr (Selected t) \<Rightarrow>
          (let ctx = \<lparr> rootData = data, currentData = data,
                       allData = (case lastRenderData inst of Some (JArr xs) \<Rightarrow> xs | _ \<Rightarrow> [data]) \<rparr>
           in case processElement h False (r_element t) (r_structure t) data ctx of
                Inl e \<Rightarrow> Inl e
              | Inr (ns, w) \<Rightarrow> Inr (Some (case ns of n # rest \<Rightarrow> n | [] \<Rightarrow> r_element t), w)))"

text \<open>
  The result of \<^verbatim>\<open>render\<close>: one element or \<open>null\<close> for a single record, an array for
  a batch. In the array of \<^verbatim>\<open>map\<close> a hole of the input stays a hole.
\<close>

datatype rendered_item = Rendered node | RenderedNull | RenderedHole

datatype rendered = Single "node option" | Batch "rendered_item list"

text \<open>The loop that keeps the results that are not \<open>null\<close>.\<close>

fun render_matching ::
  "host \<Rightarrow> template_instance \<Rightarrow> jsval list \<Rightarrow> error + (rendered_item list \<times> warning list)" where
  "render_matching h inst [] = Inr ([], [])"
| "render_matching h inst (item # items) =
     (case renderSingle h inst item of
        Inl e \<Rightarrow> Inl e
      | Inr (r, w) \<Rightarrow>
          (case render_matching h inst items of
             Inl e \<Rightarrow> Inl e
           | Inr (rs, w') \<Rightarrow>
               Inr ((case r of Some n \<Rightarrow> [Rendered n] | None \<Rightarrow> []) @ rs, w @ w')))"

text \<open>\<^verbatim>\<open>extractedData.map(item => this._renderSingle(item))\<close>.\<close>

fun render_each ::
  "host \<Rightarrow> template_instance \<Rightarrow> jsval list \<Rightarrow> error + (rendered_item list \<times> warning list)" where
  "render_each h inst [] = Inr ([], [])"
| "render_each h inst (item # items) =
     (if item = JHole then
        (case render_each h inst items of
           Inl e \<Rightarrow> Inl e
         | Inr (rs, w') \<Rightarrow> Inr (RenderedHole # rs, w'))
      else
        (case renderSingle h inst item of
           Inl e \<Rightarrow> Inl e
         | Inr (r, w) \<Rightarrow>
             (case render_each h inst items of
                Inl e \<Rightarrow> Inl e
              | Inr (rs, w') \<Rightarrow>
                  Inr ((case r of Some n \<Rightarrow> Rendered n | None \<Rightarrow> RenderedNull) # rs, w @ w'))))"

text \<open>
  \<^verbatim>\<open>render\<close>: the instance after the call, and the result of the call. The assignment
  to \<^verbatim>\<open>_lastRenderData\<close> comes first and stays when the call throws.
\<close>

definition render ::
  "host \<Rightarrow> template_instance \<Rightarrow> jsval \<Rightarrow> template_instance \<times> (error + (rendered \<times> warning list))" where
  "render h inst data =
     (let extractedData = extractDataFromSource data;
          inst' = inst\<lparr>lastRenderData := Some extractedData\<rparr>
      in (inst',
          (case extractedData of
             JArr items \<Rightarrow>
               (case (if hasTypedTemplates (templateCache inst') \<and> \<not> selector_given (selector inst')
                      then render_matching h inst' (map read_slot items)
                      else render_each h inst' items) of
                  Inl e \<Rightarrow> Inl e
                | Inr (rs, w) \<Rightarrow> Inr (Batch rs, w))
           | _ \<Rightarrow>
               (case renderSingle h inst' extractedData of
                  Inl e \<Rightarrow> Inl e
                | Inr (r, w) \<Rightarrow> Inr (Single r, w)))))"

text \<open>The instance after a sequence of calls of \<^verbatim>\<open>render\<close>.\<close>

fun after_renders :: "host \<Rightarrow> template_instance \<Rightarrow> jsval list \<Rightarrow> template_instance" where
  "after_renders h inst [] = inst"
| "after_renders h inst (d # ds) = after_renders h (fst (render h inst d)) ds"

section \<open>Example templates and records\<close>

text \<open>
  Three template roots with one bound child: a typed one, an untyped one, and one whose
  declared type is the text \<^verbatim>\<open>undefined/Person\<close>.
\<close>

definition person_root :: node where
  "person_root =
     Element ''div'' [(''class'', ''card''), (''itemscope'', ''''),
                      (''itemtype'', ''https://schema.org/Person'')] []
       [Element ''span'' [(''itemprop'', ''name'')] [] []]"

definition plain_root :: node where
  "plain_root =
     Element ''div'' [(''class'', ''card''), (''itemscope'', '''')] []
       [Element ''span'' [(''itemprop'', ''name'')] [] []]"

definition odd_root :: node where
  "odd_root =
     Element ''div'' [(''itemscope'', ''''), (''itemtype'', ''undefined/Person'')] []
       [Element ''span'' [(''itemprop'', ''name'')] [] []]"

definition type_only_record :: jsval where
  "type_only_record = JObj [(''@type'', JStr ''Person''), (''name'', JStr ''John Doe'')]"

definition untyped_record :: jsval where
  "untyped_record = JObj [(''name'', JStr ''John Doe'')]"

text \<open>A person, and two tasks that refer to it, as one batch.\<close>

definition johndoe :: jsval where
  "johndoe = JObj [(''@id'', JStr ''johndoe''), (''name'', JStr ''John Doe'')]"

definition task_bins :: jsval where
  "task_bins = JObj [(''name'', JStr ''Take the bins out''), (''assignee'', JStr ''#johndoe'')]"

definition task_milk :: jsval where
  "task_milk = JObj [(''name'', JStr ''Pick up milk''), (''assignee'', JStr ''johndoe'')]"

definition task_other :: jsval where
  "task_other = JObj [(''@id'', JStr ''t3''), (''name'', JStr ''Call mum''), (''assignee'', JStr ''#janedoe'')]"

definition batch_context :: render_context where
  "batch_context =
     \<lparr> rootData = johndoe, currentData = task_other,
       allData = [johndoe, task_bins, task_other, task_milk] \<rparr>"

text \<open>A task that names its assignee by reference, once under each of two property names.\<close>

definition alice :: jsval where
  "alice = JObj [(''@id'', JStr ''alice''), (''name'', JStr ''Alice'')]"

definition task_assignee :: jsval where
  "task_assignee =
     JObj [(''@id'', JStr ''task1''), (''name'', JStr ''Write report''),
           (''assignee'', JStr ''#alice'')]"

definition task_agent :: jsval where
  "task_agent =
     JObj [(''@id'', JStr ''task1''), (''name'', JStr ''Write report''),
           (''agent'', JStr ''#alice'')]"

definition context_of :: "jsval \<Rightarrow> jsval list \<Rightarrow> render_context" where
  "context_of d batch = \<lparr> rootData = d, currentData = d, allData = batch \<rparr>"

text \<open>
  Templates with a repeatable \<^verbatim>\<open>foo[]\<close> node: alone in its list, and followed by a node
  bound to \<open>bar\<close>.
\<close>

definition list_template :: "node list" where
  "list_template = [Element ''ul'' [] [] [Element ''li'' [(''itemprop'', ''foo[]'')] [] []]]"

definition list_template_sibling :: "node list" where
  "list_template_sibling =
     [Element ''ul'' [] []
        [Element ''li'' [(''itemprop'', ''foo[]'')] [] [],
         Element ''li'' [(''itemprop'', ''bar'')] [] []]]"

definition foo_record :: jsval where
  "foo_record = JObj [(''foo'', JArr [JStr ''bar'', JStr ''baz'', JStr ''boo'']), (''bar'', JStr ''z'')]"

definition new_template :: "node list \<Rightarrow> string \<Rightarrow> template_instance" where
  "new_template content sel =
     \<lparr> templateContent = content, selector = Some sel,
       templateCache = parseTemplate bare_host content (Some sel), lastRenderData = None \<rparr>"

definition list_template_two_arrays :: "node list" where
  "list_template_two_arrays =
     [Element ''ul'' [] []
        [Element ''li'' [(''itemprop'', ''foo[]'')] [] [],
         Element ''li'' [(''itemprop'', ''bar[]'')] [] []]]"

definition two_arrays_record :: jsval where
  "two_arrays_record =
     JObj [(''foo'', JArr [JStr ''a'', JStr ''b'']), (''bar'', JArr [JStr ''x'', JStr ''y'', JStr ''z''])]"

definition li_foo :: node where
  "li_foo = Element ''li'' [(''itemprop'', ''foo[]'')] [] []"

definition li_with :: "string \<Rightarrow> node" where
  "li_with v = Element ''li'' [(''itemprop'', ''foo'')] [] (if v = [] then [] else [Text v])"

text \<open>
  A scope filter inside the scope of a nested record: the node that lists tasks stands
  in the scope of the employer of the person who is rendered.
\<close>

definition task_list_item :: node where
  "task_list_item =
     Element ''li'' [(''data-scope'', ''assignee'')] []
       [Element ''span'' [(''itemprop'', ''name'')] [] []]"

definition acme :: jsval where
  "acme = JObj [(''@id'', JStr ''acme''), (''name'', JStr ''Acme'')]"

definition employee :: jsval where
  "employee = JObj [(''@id'', JStr ''johndoe''), (''name'', JStr ''John Doe''), (''employer'', acme)]"

definition task_acme :: jsval where
  "task_acme = JObj [(''name'', JStr ''File the accounts''), (''assignee'', JStr ''#acme'')]"

text \<open>
  The template and the batch of the README's example of a scope filter: persons, and
  actions that name their agent by reference.
\<close>

definition jobs_template :: "node list" where
  "jobs_template =
     [Element ''div'' [(''itemscope'', ''''), (''itemtype'', ''https://schema.org/Person'')] []
        [Element ''h1'' [(''itemprop'', ''name'')] [] [],
         Element ''h2'' [] [] [Text ''Jobs''],
         Element ''ul'' [] []
           [Element ''li'' [(''itemscope'', ''''), (''itemtype'', ''https://schema.org/Action''),
                            (''data-scope'', ''agent'')] []
              [Element ''span'' [(''itemprop'', ''name'')] [] []]]]]"

definition action_record :: "string \<Rightarrow> string \<Rightarrow> jsval" where
  "action_record n a =
     JObj [(''@type'', JStr ''Action''), (''@context'', JStr ''https://schema.org''),
           (''name'', JStr n), (''agent'', JStr a)]"

definition person_record :: "string \<Rightarrow> string \<Rightarrow> jsval" where
  "person_record i n =
     JObj [(''@type'', JStr ''Person''), (''@context'', JStr ''https://schema.org''),
           (''@id'', JStr i), (''name'', JStr n)]"

definition jobs_batch :: jsval where
  "jobs_batch =
     JArr [action_record ''Take the bins out'' ''#johndoe'',
           action_record ''Pick up milk'' ''#johndoe'',
           action_record ''Reboot the server'' ''#janedoe'',
           person_record ''janedoe'' ''Jane Doe'',
           person_record ''johndoe'' ''John Doe'']"

definition job_item :: "string \<Rightarrow> node" where
  "job_item n =
     Element ''li'' [(''itemscope'', ''''), (''itemtype'', ''https://schema.org/Action''),
                     (''data-scope'', ''agent'')] []
       [Element ''span'' [(''itemprop'', ''name'')] [] [Text n]]"

definition person_card :: "string \<Rightarrow> string \<Rightarrow> node list \<Rightarrow> node" where
  "person_card i n jobs =
     Element ''div'' [(''itemscope'', ''''), (''itemtype'', ''https://schema.org/Person''),
                      (''itemid'', ''http://localhost/#'' @ i)] []
       [Element ''h1'' [(''itemprop'', ''name'')] [] [Text n],
        Element ''h2'' [] [] [Text ''Jobs''],
        Element ''ul'' [] [] jobs]"

text \<open>
  A template whose \<open>span\<close> is bound to \<open>name\<close> under the constraint \<open>e\<close>, a record, the
  instance that the constructor builds from a template without a selector, and the host
  at a moment when running the text \<open>t\<close> returns \<open>v\<close>. Two constraint texts whose value
  is not the same at every call: the first draws a number, the second counts the calls.
\<close>

definition chance_span :: "string \<Rightarrow> node" where
  "chance_span e = Element ''span'' [(''itemprop'', ''name''), (''data-constraint'', e)] [] []"

definition chance_template :: "string \<Rightarrow> node list" where
  "chance_template e = [Element ''div'' [] [] [chance_span e]]"

definition ann :: jsval where
  "ann = JObj [(''name'', JStr ''Ann'')]"

definition template_of :: "node list \<Rightarrow> template_instance" where
  "template_of content =
     \<lparr> templateContent = content, selector = None,
       templateCache = parseTemplate bare_host content None, lastRenderData = None \<rparr>"

definition host_answering :: "string \<Rightarrow> jsval \<Rightarrow> host" where
  "host_answering t v =
     bare_host\<lparr>Function_call := (\<lambda>x. if x = t then Returned v else Function_call bare_host x)\<rparr>"

definition chance_text :: string where
  "chance_text = ''Math.random() < 0.5''"

definition counter_text :: string where
  "counter_text = ''(globalThis.n = (globalThis.n || 0) + 1) == 1''"

section \<open>Properties\<close>

subsection \<open>Reading the reserved keys\<close>

lemma reserved_keys_own [simp]:
  "''@id'' \<notin> set object_prototype_names"
  "''@type'' \<notin> set object_prototype_names"
  "''@context'' \<notin> set object_prototype_names"
  by (simp_all add: object_prototype_names_def)

lemma get_prop_record_id [simp]:
  "get_prop (JObj ps) ''@id'' = Inr (case map_of ps ''@id'' of Some v \<Rightarrow> v | None \<Rightarrow> JUndef)"
  by (simp split: option.splits)

subsection \<open>Template selection for a record with a type and no context\<close>

text \<open>
  C2. A record that carries \<^verbatim>\<open>@type\<close> and no \<^verbatim>\<open>@context\<close> is not selected like a record
  without type information. Under a selector that finds a typed root before an untyped
  one, the record gets no template although an untyped root exists. Without a selector
  and with a typed root, the record gets no template, while the same record without
  \<^verbatim>\<open>@type\<close> gets that root. The qualified type is computed as \<^verbatim>\<open>undefined/Person\<close>, and
  a root that declares this text as its type is matched.
\<close>

theorem matchingTemplate_type_without_context:
  "matchingTemplate [make_root person_root, make_root plain_root] (Some ''.card'') type_only_record
     = Inr NoTemplate
   \<and> matchingTemplate [make_root person_root] None type_only_record = Inr SkippedTyped
   \<and> matchingTemplate [make_root person_root] None untyped_record
     = Inr (Selected (make_root person_root))
   \<and> matchingTemplate [make_root odd_root] None type_only_record
     = Inr (Selected (make_root odd_root))"
  by (simp add: matchingTemplate_def firstAvailable_def hasTypedTemplates_def selector_given_def
        truthy_str_def make_root_def getAttribute_def Let_def person_root_def plain_root_def
        odd_root_def type_only_record_def untyped_record_def)

subsection \<open>The scope filter\<close>

lemma filter_items_total:
  assumes "\<And>x. x \<in> set xs \<Longrightarrow> x \<noteq> JHole \<Longrightarrow> p x = Inr (q x)"
  shows "filter_items p xs = Inr (filter (\<lambda>x. x \<noteq> JHole \<and> q x) xs)"
  using assms by (induction xs) auto

lemma get_prop_record:
  "k \<notin> set object_prototype_names \<Longrightarrow> \<exists>w. get_prop (JObj ps) k = Inr w"
  by (auto split: option.splits)

text \<open>
  C10. The records that a scope filter on property \<open>P\<close> selects are the records of the
  batch, in the order of the batch, whose value for \<open>P\<close> is the identifier of the root
  record of the render, with or without the marker \<open>#\<close> in front. Neither the record in
  scope nor \<open>currentData\<close> has a part in it, and a root record without identifier
  selects nothing. The statement is for batches whose records can be read at \<open>P\<close>, as
  every record can for a name that is not inherited.
\<close>

theorem findScopeMatches_root_id:
  assumes items: "\<forall>item \<in> set (allData ctx). item = JHole \<or> (\<exists>w. get_prop item P = Inr w)"
    and root: "get_prop (rootData ctx) ''@id'' = Inr rid"
    and idt: "to_string rid = Inr idText"
  shows "findScopeMatches P d ctx =
           Inr (if truthy rid
                then filter (\<lambda>item. item \<noteq> JHole \<and>
                        (prop_of item P = JStr (CHR ''#'' # idText) \<or> prop_of item P = rid))
                       (allData ctx)
                else [])"
proof (cases "truthy rid")
  case False
  then show ?thesis by (simp add: findScopeMatches_def root)
next
  case True
  have "scope_test P rid x = Inr (prop_of x P = JStr (CHR ''#'' # idText) \<or> prop_of x P = rid)"
    if "x \<in> set (allData ctx)" "x \<noteq> JHole" for x
  proof -
    from that items obtain w where "get_prop x P = Inr w" by blast
    then show ?thesis by (simp add: scope_test_def prop_of_def idt)
  qed
  then have "filter_items (scope_test P rid) (allData ctx) =
      Inr (filter (\<lambda>item. item \<noteq> JHole \<and>
              (prop_of item P = JStr (CHR ''#'' # idText) \<or> prop_of item P = rid)) (allData ctx))"
    by (rule filter_items_total)
  with True show ?thesis by (simp add: findScopeMatches_def root)
qed

theorem findScopeMatches_root_id_witness:
  "list_all (\<lambda>item. \<exists>w. get_prop item ''assignee'' = Inr w) (allData batch_context)
   \<and> get_prop (rootData batch_context) ''@id'' = Inr (JStr ''johndoe'')
   \<and> to_string (JStr ''johndoe'') = Inr ''johndoe''
   \<and> findScopeMatches ''assignee'' task_other batch_context = Inr [task_bins, task_milk]"
proof -
  have a0: "list_all (\<lambda>item. \<exists>w. get_prop item ''assignee'' = Inr w) (allData batch_context)"
    by (simp add: batch_context_def johndoe_def task_bins_def task_milk_def task_other_def
          object_prototype_names_def)
  then have a: "\<forall>item \<in> set (allData batch_context).
                  item = JHole \<or> (\<exists>w. get_prop item ''assignee'' = Inr w)"
    by (simp add: list_all_iff)
  have b: "get_prop (rootData batch_context) ''@id'' = Inr (JStr ''johndoe'')"
    by (simp add: batch_context_def johndoe_def)
  have c: "to_string (JStr ''johndoe'') = Inr ''johndoe''" by simp
  have "findScopeMatches ''assignee'' task_other batch_context = Inr [task_bins, task_milk]"
    using findScopeMatches_root_id [OF a b c, of task_other]
    by (simp add: batch_context_def prop_of_def johndoe_def task_bins_def task_milk_def
          task_other_def object_prototype_names_def)
  with a0 b c show ?thesis by simp
qed

text \<open>
  The filter in the scope of a nested record: the node stands in the scope of the
  employer \<open>acme\<close> of the person rendered, and lists the task assigned to the person,
  not the task assigned to \<open>acme\<close>.
\<close>

lemma scope_filter_uses_root_record:
  "processElement bare_host True task_list_item (analyzeElement task_list_item) acme
      \<lparr> rootData = employee, currentData = acme, allData = [employee, task_bins, task_acme] \<rparr>
     = Inr ([Element ''li'' [(''data-scope'', ''assignee'')] []
               [Element ''span'' [(''itemprop'', ''name'')] [] [Text ''Take the bins out'']]], [])"
  by code_simp

text \<open>
  The README's example: every person of the batch is rendered with the actions that
  name the person as their agent, in the order of the batch; the actions themselves have
  no template and are left out.
\<close>

lemma readme_scope_example:
  "snd (render bare_host
          \<lparr> templateContent = jobs_template, selector = None,
            templateCache = parseTemplate bare_host jobs_template None, lastRenderData = None \<rparr>
          jobs_batch)
     = Inr (Batch
              [Rendered (person_card ''janedoe'' ''Jane Doe'' [job_item ''Reboot the server'']),
               Rendered (person_card ''johndoe'' ''John Doe''
                           [job_item ''Take the bins out'', job_item ''Pick up milk''])], [])"
  by code_simp

subsection \<open>Expressions\<close>

text \<open>
  C1. Reference resolution is tied to the one expression text \<^verbatim>\<open>@id==agent\<close>. For the
  task whose \<open>assignee\<close> is \<^verbatim>\<open>#alice\<close>, in a batch that holds the record \<open>alice\<close>, the
  expression \<^verbatim>\<open>@id==assignee\<close> compares the task's own identifier with the reference
  text: it is false and resolves no record. The same task with the property named
  \<open>agent\<close> and the expression \<^verbatim>\<open>@id==agent\<close> is true and resolves \<open>alice\<close>.
\<close>

theorem evaluateExpression_reference_only_agent:
  "evaluateExpression bare_host ''@id==assignee'' task_assignee
       (context_of task_assignee [alice, task_assignee])
     = Inr (JBool False, None, [])
   \<and> evaluateExpression bare_host ''@id==agent'' task_agent
       (context_of task_agent [alice, task_agent])
     = Inr (JBool True, Some alice, [])"
  by code_simp

text \<open>No expression but \<^verbatim>\<open>@id==agent\<close> ever resolves a record, whatever the host.\<close>

lemma evaluateExpression_no_reference:
  assumes "expression \<noteq> ''@id==agent''"
    and "evaluateExpression h expression data ctx = Inr (v, r, w)"
  shows "r = None"
  using assms
  by (auto simp: evaluateExpression_def split: sum.splits host_result.splits)

text \<open>
  For the expression \<^verbatim>\<open>@id==agent\<close> the reference is resolved to the first record of
  the batch with that identifier; without such a record the expression is false and
  nothing is resolved.
\<close>

lemma find_by_id_first:
  assumes "find_by_id i items = Inr (Some m)"
  shows "\<exists>before after. items = before @ m # after \<and> get_prop m ''@id'' = Inr (JStr i)
           \<and> (\<forall>x \<in> set before. \<exists>v. get_prop x ''@id'' = Inr v \<and> v \<noteq> JStr i)"
  using assms
proof (induction items)
  case Nil
  then show ?case by simp
next
  case (Cons x xs)
  from Cons.prems obtain v where v: "get_prop x ''@id'' = Inr v"
    by (auto split: sum.splits)
  show ?case
  proof (cases "v = JStr i")
    case True
    with v Cons.prems have "m = x" by simp
    with v True show ?thesis by (intro exI [of _ "[]"] exI [of _ xs]) auto
  next
    case False
    with v Cons.prems have "find_by_id i xs = Inr (Some m)" by simp
    from Cons.IH [OF this] obtain before after where
      "xs = before @ m # after" "get_prop m ''@id'' = Inr (JStr i)"
      "\<forall>x \<in> set before. \<exists>v. get_prop x ''@id'' = Inr v \<and> v \<noteq> JStr i"
      by blast
    with v False show ?thesis
      by (intro exI [of _ "x # before"] exI [of _ after]) auto
  qed
qed

lemma evaluateExpression_agent_resolves:
  assumes "get_prop (currentData ctx) ''agent'' = Inr (JStr (CHR ''#'' # i))"
    and "find_by_id i (allData ctx) = Inr (Some m)" and "truthy m"
  shows "evaluateExpression h ''@id==agent'' d ctx = Inr (JBool True, Some m, [])"
  using assms by (simp add: evaluateExpression_def)

lemma evaluateExpression_agent_unresolved:
  assumes "get_prop (currentData ctx) ''agent'' = Inr (JStr (CHR ''#'' # i))"
    and "find_by_id i (allData ctx) = Inr None"
  shows "evaluateExpression h ''@id==agent'' d ctx = Inr (JBool False, None, [])"
  using assms by (simp add: evaluateExpression_def)

text \<open>
  C7. The value of an expression is what the host returns when it compiles and runs a
  program text built from the expression and from the record. For the expression
  \<^verbatim>\<open>name == "x"\<close> and a record whose \<open>name\<close> is the text \<^verbatim>\<open>" + alert(1) + "\<close>, the
  program handed to the host calls \<^verbatim>\<open>alert\<close>.
\<close>

theorem evaluateExpression_host_call:
  "evaluateExpression h ''name == \"x\"'' (JObj [(''name'', JStr ''\" + alert(1) + \"'')]) ctx
     = (case Function_call h ''\"use strict\"; return (\"\" + alert(1) + \"\" == \"x\")'' of
          Returned v \<Rightarrow> Inr (v, None, [])
        | Threw \<Rightarrow> Inr (JBool False, None, [FailedConstraint ''\"\" + alert(1) + \"\" == \"x\"''])
        | Beyond \<Rightarrow> Inl NotModelled)"
  by (simp add: evaluateExpression_def substituted_def function_body_def word_matches_def
      is_word_char_def plain_replacement_def)

text \<open>
  In general: the value of every expression other than \<^verbatim>\<open>@id==agent\<close> is the host's
  result for the function body built from the substituted text, and a string of the
  record is pasted into that text between two quotes as it is.
\<close>

lemma evaluateExpression_is_host_call:
  assumes "expression \<noteq> ''@id==agent''" and "substituted expression data = Inr e"
  shows "evaluateExpression h expression data ctx =
           (case Function_call h (function_body e) of
              Returned v \<Rightarrow> Inr (v, None, [])
            | Threw \<Rightarrow> Inr (JBool False, None, [FailedConstraint e])
            | Beyond \<Rightarrow> Inl NotModelled)"
  using assms by (simp add: evaluateExpression_def)

lemma substituted_pastes_value:
  assumes "plain_replacement s"
  shows "substituted ''name == \"x\"'' (JObj [(''name'', JStr s)])
           = Inr (''\"'' @ s @ ''\" == \"x\"'')"
  using assms
  by (simp add: substituted_def word_matches_def is_word_char_def plain_replacement_def)

text \<open>
  C3. For a record without property \<open>p\<close> the expression \<^verbatim>\<open>p == ""\<close> is not evaluated with
  the empty text in the place of \<open>p\<close>: the identifier is left in the text, and the value
  is what the host makes of the program \<^verbatim>\<open>return (p == "")\<close>. On a host whose global
  scope does not bind \<open>p\<close> the expression is false, with a warning. The same routine
  does put the empty text in the place of \<^verbatim>\<open>@id\<close> when the record has no \<^verbatim>\<open>@id\<close>, so
  that \<^verbatim>\<open>@id == ""\<close> is true for that record. The fallback \<^verbatim>\<open>!title\<close> of the
  documentation is false, with a warning, for a record without \<open>title\<close>, and true for
  a record whose \<open>title\<close> is the empty text.
\<close>

theorem evaluateExpression_missing_property:
  "evaluateExpression h ''p == \"\"'' (JObj [(''name'', JStr ''John'')]) ctx
     = (case Function_call h (function_body ''p == \"\"'') of
          Returned v \<Rightarrow> Inr (v, None, [])
        | Threw \<Rightarrow> Inr (JBool False, None, [FailedConstraint ''p == \"\"''])
        | Beyond \<Rightarrow> Inl NotModelled)
   \<and> evaluateExpression bare_host ''p == \"\"'' (JObj [(''name'', JStr ''John'')]) ctx
     = Inr (JBool False, None, [FailedConstraint ''p == \"\"''])
   \<and> evaluateExpression bare_host ''@id == \"\"'' (JObj [(''name'', JStr ''John'')]) ctx
     = Inr (JBool True, None, [])
   \<and> evaluateExpression bare_host ''!title'' (JObj [(''name'', JStr ''John'')]) ctx
     = Inr (JBool False, None, [FailedConstraint ''!title''])
   \<and> evaluateExpression bare_host ''!title'' (JObj [(''name'', JStr ''John''), (''title'', JStr [])]) ctx
     = Inr (JBool True, None, [])"
proof -
  let ?john = "JObj [(''name'', JStr ''John'')]"
  have s1: "substituted ''p == \"\"'' ?john = Inr ''p == \"\"''" by code_simp
  have s2: "substituted ''@id == \"\"'' ?john = Inr ''\"\" == \"\"''" by code_simp
  have s3: "substituted ''!title'' ?john = Inr ''!title''" by code_simp
  have s4: "substituted ''!title'' (JObj [(''name'', JStr ''John''), (''title'', JStr [])])
              = Inr ''!\"\"''" by code_simp
  have f1: "Function_call bare_host (function_body ''p == \"\"'') = Threw" by code_simp
  have f2: "Function_call bare_host (function_body ''\"\" == \"\"'') = Returned (JBool True)"
    by code_simp
  have f3: "Function_call bare_host (function_body ''!title'') = Threw" by code_simp
  have f4: "Function_call bare_host (function_body ''!\"\"'') = Returned (JBool True)"
    by code_simp
  show ?thesis
    by (simp add: evaluateExpression_def s1 s2 s3 s4 f1 f2 f3 f4)
qed

lemma substitute_props_none:
  assumes "map_of ps ''hasOwnProperty'' = None" "\<forall>w \<in> set ws. map_of ps w = None"
  shows "substitute_props (JObj ps) ws e = Inr e"
  using assms by (induction ws arbitrary: e) auto

lemma replace_first_absent: "\<not> str_includes e pat \<Longrightarrow> replace_first pat r e = e"
  by (induction e) auto

lemma to_string_primitive: "is_primitive v \<Longrightarrow> \<exists>t. to_string v = Inr t"
  by (cases v) auto

text \<open>
  When no word of the expression is an own property of the record (and the expression
  does not mention \<^verbatim>\<open>@id\<close>), the host receives the expression as it was written.
\<close>

lemma evaluateExpression_unknown_names:
  assumes noid: "\<not> str_includes e ''@id''"
    and prim: "is_primitive (prop_of (JObj ps) ''@id'')"
    and nohas: "map_of ps ''hasOwnProperty'' = None"
    and unknown: "\<forall>w \<in> set (word_matches e). map_of ps w = None"
  shows "evaluateExpression h e (JObj ps) ctx =
           (case Function_call h (function_body e) of
              Returned v \<Rightarrow> Inr (v, None, [])
            | Threw \<Rightarrow> Inr (JBool False, None, [FailedConstraint e])
            | Beyond \<Rightarrow> Inl NotModelled)"
proof -
  have ne: "e \<noteq> ''@id==agent''" using noid by auto
  obtain i where i: "get_prop (JObj ps) ''@id'' = Inr i"
    using get_prop_record_id by blast
  then have "is_primitive i" using prim by (simp add: prop_of_def)
  then have "is_primitive (if truthy i then i else JStr [])" by simp
  then obtain t where t: "to_string (if truthy i then i else JStr []) = Inr t"
    using to_string_primitive by blast
  have "substituted e (JObj ps) = Inr e"
    unfolding substituted_def i using noid t
    by (simp add: replace_first_absent substitute_props_none [OF nohas unknown])
  with ne show ?thesis by (simp add: evaluateExpression_def)
qed

text \<open>Replacing one word leaves the other words of a text in place.\<close>

lemma scan_words_append_word:
  "list_all is_word_char cur \<Longrightarrow> scan_words acc (cur @ e) = scan_words (acc @ cur) e"
  by (induction cur arbitrary: acc) simp_all

lemma scan_words_split:
  "\<not> is_word_char c \<Longrightarrow> scan_words cur (a @ c # b) = scan_words cur a @ scan_words [] b"
  by (induction a arbitrary: cur) simp_all

lemma scan_words_of_word:
  "list_all is_word_char cur \<Longrightarrow> scan_words [] cur = (if cur = [] then [] else [cur])"
  using scan_words_append_word [of cur "[]" "[]"] by simp

lemma scan_words_nonempty: "[] \<notin> set (scan_words cur e)"
  by (induction e arbitrary: cur) auto

lemma scan_words_replace:
  assumes "prop \<noteq> []" "list_all is_word_char cur"
  shows "scan_words [] (replace_words prop r cur e)
           = concat (map (\<lambda>w. if w = prop then scan_words [] r else [w]) (scan_words cur e))"
  using assms(2)
proof (induction e arbitrary: cur)
  case Nil
  then show ?case using assms(1) by (simp add: scan_words_of_word)
next
  case (Cons c cs)
  show ?case
  proof (cases "is_word_char c")
    case True
    with Cons show ?thesis by simp
  next
    case False
    have "scan_words [] (if cur = prop then r else cur)
            = concat (map (\<lambda>w. if w = prop then scan_words [] r else [w]) (if cur = [] then [] else [cur]))"
      using Cons.prems assms(1) by (simp add: scan_words_of_word)
    with False Cons.IH [of "[]"] show ?thesis
      by (simp add: scan_words_split)
  qed
qed

lemma replace_words_keeps:
  assumes "prop \<noteq> []" "w \<in> set (word_matches e)" "w \<noteq> prop"
  shows "w \<in> set (word_matches (replace_words prop r [] e))"
  using assms by (auto simp: word_matches_def scan_words_replace)

lemma substitute_props_keeps:
  assumes nohas: "map_of ps ''hasOwnProperty'' = None" and unknown: "map_of ps w = None"
    and props: "[] \<notin> set props"
    and word: "w \<in> set (word_matches e)"
    and result: "substitute_props (JObj ps) props e = Inr e'"
  shows "w \<in> set (word_matches e')"
  using props word result
proof (induction props arbitrary: e)
  case Nil
  then show ?case by simp
next
  case (Cons name props)
  show ?case
  proof (cases "map_of ps name")
    case None
    with Cons nohas show ?thesis by simp
  next
    case (Some v)
    with unknown have ne: "w \<noteq> name" by auto
    from Cons.prems(1) have pne: "name \<noteq> []" by auto
    from Some Cons.prems(3) nohas obtain r where
      r: "value_text v = Inr r"
      and rest: "substitute_props (JObj ps) props (replace_words name r [] e) = Inr e'"
      by (auto split: sum.splits if_splits)
    have "w \<in> set (word_matches (replace_words name r [] e))"
      using replace_words_keeps [OF pne Cons.prems(2) ne] .
    with Cons.IH [OF _ this rest] Cons.prems(1) show ?thesis by simp
  qed
qed

text \<open>
  In general, for an expression that does not mention \<^verbatim>\<open>@id\<close>: an identifier that is
  not an own property of the record is still a word of the text that the host receives,
  whatever the other names of the expression are replaced with.
\<close>

lemma evaluateExpression_unknown_name_kept:
  assumes noid: "\<not> str_includes e ''@id''"
    and nohas: "map_of ps ''hasOwnProperty'' = None"
    and word: "p \<in> set (word_matches e)"
    and unknown: "map_of ps p = None"
    and subst: "substituted e (JObj ps) = Inr e'"
  shows "p \<in> set (word_matches e')
         \<and> evaluateExpression h e (JObj ps) ctx =
             (case Function_call h (function_body e') of
                Returned v \<Rightarrow> Inr (v, None, [])
              | Threw \<Rightarrow> Inr (JBool False, None, [FailedConstraint e'])
              | Beyond \<Rightarrow> Inl NotModelled)"
proof -
  have ne: "e \<noteq> ''@id==agent''" using noid by auto
  from subst noid have "substitute_props (JObj ps) (word_matches e) e = Inr e'"
    by (auto simp: substituted_def replace_first_absent split: sum.splits if_splits)
  moreover have "[] \<notin> set (word_matches e)"
    by (simp add: word_matches_def scan_words_nonempty)
  ultimately have "p \<in> set (word_matches e')"
    using substitute_props_keeps [OF nohas unknown _ word] by blast
  with ne subst show ?thesis by (simp add: evaluateExpression_def)
qed

lemma evaluateExpression_unknown_name_kept_example:
  "\<not> str_includes ''status == \"open\" && p == \"\"'' ''@id''
   \<and> ''p'' \<in> set (word_matches ''status == \"open\" && p == \"\"'')
   \<and> substituted ''status == \"open\" && p == \"\"'' (JObj [(''status'', JStr ''open'')])
        = Inr ''\"open\" == \"open\" && p == \"\"''
   \<and> ''p'' \<in> set (word_matches ''\"open\" == \"open\" && p == \"\"'')
   \<and> evaluateExpression bare_host ''status == \"open\" && p == \"\"'' (JObj [(''status'', JStr ''open'')])
        (context_of (JObj [(''status'', JStr ''open'')]) [JObj [(''status'', JStr ''open'')]])
      = Inr (JBool False, None, [FailedConstraint ''\"open\" == \"open\" && p == \"\"''])"
proof -
  let ?e = "''status == \"open\" && p == \"\"''"
  let ?ps = "[(''status'', JStr ''open'')]"
  have a: "\<not> str_includes ?e ''@id''" by simp
  have b: "map_of ?ps ''hasOwnProperty'' = None" by simp
  have c: "''p'' \<in> set (word_matches ?e)" by code_simp
  have d: "map_of ?ps ''p'' = None" by simp
  have s: "substituted ?e (JObj ?ps) = Inr ''\"open\" == \"open\" && p == \"\"''" by code_simp
  have f: "Function_call bare_host (function_body ''\"open\" == \"open\" && p == \"\"'') = Threw"
    by code_simp
  show ?thesis
    using evaluateExpression_unknown_name_kept [OF a b c d s, of bare_host] a c s f
    by simp
qed

subsection \<open>Form data\<close>

lemma path_fields_no_separator:
  "list_all (\<lambda>c. \<not> sep c) p \<Longrightarrow> path_fields sep cur p = (if cur @ p = [] then [] else [cur @ p])"
  by (induction p arbitrary: cur) auto

lemma startsWith_head: "startsWith s (c # p) \<Longrightarrow> c \<in> set s"
  by (cases s) auto

lemma str_includes_head: "str_includes s (c # p) \<Longrightarrow> c \<in> set s"
  by (induction s) (auto dest: startsWith_head)

lemma plain_key_parts:
  assumes "plain_key k"
  shows "\<not> str_includes k ''[]''" and "split_dots_brackets k = [k]"
proof -
  from assms have "CHR ''['' \<notin> set k" by (auto simp: plain_key_def list_all_iff)
  then show "\<not> str_includes k ''[]''" using str_includes_head by blast
  from assms have "list_all (\<lambda>c. \<not> (c = CHR ''.'' \<or> c = CHR ''['' \<or> c = CHR '']'')) k"
    by (auto simp: plain_key_def list_all_iff)
  then show "split_dots_brackets k = [k]"
    using assms by (simp add: split_dots_brackets_def path_fields_no_separator plain_key_def)
qed

lemma setNestedProperty_plain:
  assumes "plain_key k"
  shows "setNestedProperty (JObj ps) k w = Inr (JObj (update_key k w ps))"
  using assms plain_key_parts [OF assms]
  by (simp add: setNestedProperty_def last_or_undefined_def plain_key_def)

lemma set_entries_same_key:
  assumes "plain_key k"
  shows "set_entries (JObj [(k, JStr u)]) (map (\<lambda>v. (k, v)) vs) = Inr (JObj [(k, JStr (last (u # vs)))])"
  using assms by (induction vs arbitrary: u) (simp_all add: setNestedProperty_plain)

text \<open>
  C4. The values of a repeated plain key do not accumulate: each entry assigns the
  property anew, and what is left is the value of the last entry.
\<close>

theorem extractFromFormData_repeated_key:
  assumes "plain_key k" and "vs \<noteq> []"
  shows "extractFromFormData (map (\<lambda>v. (k, v)) vs) = Inr (JObj [(k, JStr (last vs))])"
proof (cases vs)
  case Nil
  with assms show ?thesis by simp
next
  case (Cons v rest)
  then show ?thesis
    using set_entries_same_key [OF assms(1), of v rest]
    by (simp add: extractFromFormData_def setNestedProperty_plain [OF assms(1)])
qed

theorem extractFromFormData_repeated_key_witness:
  "plain_key ''tags'' \<and> [''value1'', ''value2''] \<noteq> []
   \<and> extractFromFormData [(''tags'', ''value1''), (''tags'', ''value2'')]
       = Inr (JObj [(''tags'', JStr ''value2'')])"
  using extractFromFormData_repeated_key [of "''tags''" "[''value1'', ''value2'']"]
  by (simp add: plain_key_def)

text \<open>
  The other parts of the normalisation: a key with the marker \<^verbatim>\<open>[]\<close> collects the values
  of its entries in their order, a dotted key builds nested records, and a numeric part
  builds an array.
\<close>

lemma replace_first_marker_end:
  "CHR ''['' \<notin> set k \<Longrightarrow> replace_first ''[]'' [] (k @ ''[]'') = k"
  by (induction k) auto

lemma str_includes_marker_end: "str_includes (k @ ''[]'') ''[]''"
  by (induction k) auto

lemma setNestedProperty_marker:
  assumes "plain_key k"
  shows "setNestedProperty (JObj ps) (k @ ''[]'') w = push_at k w (JObj ps)"
proof -
  from assms have nb: "CHR ''['' \<notin> set k" by (auto simp: plain_key_def list_all_iff)
  from assms have "list_all (\<lambda>c. \<not> (c = CHR ''.'')) k"
    by (auto simp: plain_key_def list_all_iff)
  then have "split_dots k = [k]"
    using assms by (simp add: split_dots_def path_fields_no_separator plain_key_def)
  then show ?thesis
    by (simp add: setNestedProperty_def str_includes_marker_end replace_first_marker_end [OF nb]
        last_or_undefined_def)
qed

lemma set_entries_marker:
  assumes "plain_key k" "k \<notin> set object_prototype_names"
  shows "set_entries (JObj [(k, JArr us)]) (map (\<lambda>v. (k @ ''[]'', v)) vs)
           = Inr (JObj [(k, JArr (us @ map JStr vs))])"
  using assms
  by (induction vs arbitrary: us) (simp_all add: setNestedProperty_marker push_at_def plain_key_def)

lemma extractFromFormData_marker:
  assumes "plain_key k" "k \<notin> set object_prototype_names" "vs \<noteq> []"
  shows "extractFromFormData (map (\<lambda>v. (k @ ''[]'', v)) vs) = Inr (JObj [(k, JArr (map JStr vs))])"
proof (cases vs)
  case Nil
  with assms show ?thesis by simp
next
  case (Cons v rest)
  then show ?thesis
    using set_entries_marker [OF assms(1,2), of "[JStr v]" rest] assms
    by (simp add: extractFromFormData_def setNestedProperty_marker push_at_def plain_key_def)
qed

lemma extractFromFormData_examples:
  "extractFromFormData [(''a.b'', ''value'')] = Inr (JObj [(''a'', JObj [(''b'', JStr ''value'')])])"
  "extractFromFormData [(''items[0].name'', ''A''), (''items[0].price'', ''1''), (''items[1].name'', ''B'')]
     = Inr (JObj [(''items'', JArr [JObj [(''name'', JStr ''A''), (''price'', JStr ''1'')],
                                   JObj [(''name'', JStr ''B'')]])])"
  by code_simp+

subsection \<open>Array bindings\<close>

text \<open>
  C5. A repeatable node that is followed by another bound node: for three values the
  list holds three clones, but the second clone has been processed once more, with the
  structure of the node that followed the repeatable one in the template, and carries
  the value of \<open>bar\<close>; the node bound to \<open>bar\<close> itself is left empty. When the node
  that follows is repeatable too, the second clone of \<open>foo\<close> is replaced by the clones
  for \<open>bar\<close>: of two values of \<open>foo\<close> one node is left. A repeatable node that is the
  root of the render has no parent to take the clones: the render throws.
\<close>

theorem render_array_misaligned:
  "snd (render bare_host (new_template list_template_sibling ''ul'') foo_record)
     = Inr (Single (Some (Element ''ul'' [] []
              [Element ''li'' [(''itemprop'', ''foo'')] [] [Text ''bar''],
               Element ''li'' [(''itemprop'', ''foo'')] [] [Text ''z''],
               Element ''li'' [(''itemprop'', ''foo'')] [] [Text ''boo''],
               Element ''li'' [(''itemprop'', ''bar'')] [] []])), [])
   \<and> snd (render bare_host (new_template list_template_two_arrays ''ul'') two_arrays_record)
     = Inr (Single (Some (Element ''ul'' [] []
              [Element ''li'' [(''itemprop'', ''foo'')] [] [Text ''a''],
               Element ''li'' [(''itemprop'', ''bar'')] [] [Text ''x''],
               Element ''li'' [(''itemprop'', ''bar'')] [] [Text ''y''],
               Element ''li'' [(''itemprop'', ''bar'')] [] [Text ''z''],
               Element ''li'' [(''itemprop'', ''bar[]'')] [] []])), [])
   \<and> snd (render bare_host (new_template list_template ''li'') foo_record) = Inl TypeError"
  by code_simp

text \<open>
  A repeatable node that is the only child of its parent is expanded in order: for every
  list of strings the list element holds one node per string, in the order of the list.
\<close>

lemma analyze_li_foo:
  "analyzeElement li_foo =
     Analysis (Some ''foo[]'') False None None None None True (Some ''foo'') [] []"
  by (simp add: li_foo_def endsWith_def)

lemma setElementValue_li:
  "setElementValue (Element ''li'' as st cs) (JStr v)
     = Inr (Element ''li'' as st (if v = [] then [] else [Text v]))"
  by (simp add: setElementValue_def content_text_def)

lemma processArrayItems_strings:
  "processArrayItems h True (Element ''li'' as st cs)
       (Analysis ip sc ty ds dc scp True (Some P) ats []) (map JStr vs) ctx
     = Inr (map (\<lambda>v. Element ''li'' (update_key ''itemprop'' P as) st
                        (if v = [] then [] else [Text v])) vs, [])"
  by (induction vs) (simp_all add: setElementValue_li)

lemma processElement_li_foo:
  "processElement h True li_foo (analyzeElement li_foo) (JObj [(''foo'', JArr (map JStr vs))]) ctx
     = Inr (map li_with vs, [])"
proof -
  have rs: "map (read_slot \<circ> JStr) vs = map JStr vs"
    by (induction vs) (simp_all add: read_slot_def)
  show ?thesis
    unfolding analyze_li_foo
    apply (subst processElement.simps)
    apply (simp add: check_constraints_def truthy_str_def apply_scope_def rs li_foo_def
        processArrayItems_strings li_with_def del: processElement.simps)
    done
qed

lemma render_array_in_order:
  "snd (render bare_host (new_template list_template ''ul'') (JObj [(''foo'', JArr (map JStr vs))]))
     = Inr (Single (Some (Element ''ul'' [] [] (map li_with vs))), [])"
proof -
  let ?d = "JObj [(''foo'', JArr (map JStr vs))]"
  let ?ul = "Element ''ul'' [] [] [li_foo]"
  have cache: "parseTemplate bare_host list_template (Some ''ul'') = [make_root ?ul]"
    by (simp add: parseTemplate_def selector_given_def truthy_str_def
        bare_host_def type_selector_def list_template_def li_foo_def)
  have st: "r_structure (make_root ?ul)
              = Analysis None False None None None None False None [] [analyzeElement li_foo]"
    by (simp add: make_root_def li_foo_def)
  have kids: "processChildren bare_host 0 [li_foo] [analyzeElement li_foo] ?d ctx
                = Inr (map li_with vs, [])" for ctx
    apply (subst processChildren.simps)
    apply (simp add: processElement_li_foo li_foo_def [symmetric]
        del: processElement.simps processChildren.simps)
    apply (simp add: li_foo_def)
    done
  have root: "processElement bare_host False ?ul (r_structure (make_root ?ul)) ?d ctx
                = Inr ([Element ''ul'' [] [] (map li_with vs)], [])" for ctx
    unfolding st
    apply (subst processElement.simps)
    apply (simp add: check_constraints_def truthy_str_def apply_scope_def kids add_itemid_def
        del: processElement.simps processChildren.simps)
    done
  have sel: "matchingTemplate [make_root ?ul] (Some ''ul'') ?d = Inr (Selected (make_root ?ul))"
    by (simp add: matchingTemplate_def selector_given_def truthy_str_def firstAvailable_def
        make_root_def getAttribute_def object_prototype_names_def)
  have re: "r_element (make_root ?ul) = ?ul"
    by (simp add: make_root_def)
  show ?thesis
    by (simp add: render_def renderSingle_def new_template_def cache sel re root
        del: processElement.simps)
qed

text \<open>
  An array binding whose value is truthy and no sequence: the element stays as it is, and
  a warning is logged.
\<close>

lemma processElement_not_a_sequence:
  assumes "check_constraints h s d ctx = Inr (Proceed d1 w0)"
    and "a_isArray s" and "truthy_str (a_cleanItemprop s)"
    and "get_prop (apply_scope s d1 ctx) (the (a_cleanItemprop s)) = Inr v"
    and "truthy v" and "\<not> isArray_val v"
  shows "processElement h hp el s d ctx = Inr ([el], w0 @ [ExpectedArray (a_cleanItemprop s)])"
  using assms
  by (subst processElement.simps) (cases v; simp del: processElement.simps)

text \<open>
  C6. An array binding whose value is the number \<open>0\<close>: the value is assigned to the node
  as its content, the marker is stripped and nothing is logged. For the string \<open>bar\<close> in
  the same place the node is left as it was in the template and a warning is logged.
\<close>

theorem render_array_binding_falsy:
  "snd (render bare_host (new_template list_template ''ul'') (JObj [(''foo'', JNum 0)]))
     = Inr (Single (Some (Element ''ul'' [] []
              [Element ''li'' [(''itemprop'', ''foo'')] [] [Text ''0'']])), [])
   \<and> snd (render bare_host (new_template list_template ''ul'') (JObj [(''foo'', JStr ''bar'')]))
     = Inr (Single (Some (Element ''ul'' [] []
              [Element ''li'' [(''itemprop'', ''foo[]'')] [] []])), [ExpectedArray (Some ''foo'')])"
  by code_simp

subsection \<open>Renders on one instance\<close>

lemma renderSingle_fields:
  assumes "templateCache i1 = templateCache i2" "selector i1 = selector i2"
    "lastRenderData i1 = lastRenderData i2"
  shows "renderSingle h i1 d = renderSingle h i2 d"
  by (simp only: renderSingle_def assms)

lemma render_matching_fields:
  assumes "templateCache i1 = templateCache i2" "selector i1 = selector i2"
    "lastRenderData i1 = lastRenderData i2"
  shows "render_matching h i1 ds = render_matching h i2 ds"
  by (induction ds) (simp_all add: renderSingle_fields [OF assms] cong: sum.case_cong)

lemma render_each_fields:
  assumes "templateCache i1 = templateCache i2" "selector i1 = selector i2"
    "lastRenderData i1 = lastRenderData i2"
  shows "render_each h i1 ds = render_each h i2 ds"
  by (induction ds) (simp_all add: renderSingle_fields [OF assms] cong: sum.case_cong)

lemma render_result_fields:
  assumes "templateCache i1 = templateCache i2" "selector i1 = selector i2"
  shows "snd (render h i1 d) = snd (render h i2 d)"
proof -
  let ?e = "extractDataFromSource d"
  let ?j1 = "i1\<lparr>lastRenderData := Some ?e\<rparr>" and ?j2 = "i2\<lparr>lastRenderData := Some ?e\<rparr>"
  have c: "templateCache ?j1 = templateCache ?j2" "selector ?j1 = selector ?j2"
    "lastRenderData ?j1 = lastRenderData ?j2"
    using assms by simp_all
  show ?thesis
    unfolding render_def Let_def snd_conv
    by (simp only: renderSingle_fields [OF c] render_matching_fields [OF c]
          render_each_fields [OF c] c)
qed

lemma render_frame:
  "templateCache (fst (render h inst d)) = templateCache inst"
  "selector (fst (render h inst d)) = selector inst"
  "templateContent (fst (render h inst d)) = templateContent inst"
  by (simp_all add: render_def Let_def)

lemma after_renders_frame:
  "templateCache (after_renders h inst ds) = templateCache inst
   \<and> selector (after_renders h inst ds) = selector inst
   \<and> templateContent (after_renders h inst ds) = templateContent inst"
  by (induction ds arbitrary: inst) (simp_all add: render_frame)

text \<open>
  The instance carries nothing from one render to the next: with the host that answers
  at the moment of a render, the result is the same after any sequence of earlier
  renders, under whatever host, as on the instance before them.
\<close>

lemma render_reads_no_earlier_render:
  "snd (render h (after_renders h' inst ds) d) = snd (render h inst d)"
  using after_renders_frame [of h' inst ds] by (intro render_result_fields) simp_all

text \<open>
  What a render does depend on is the host: the text of a constraint is run by the host
  at every render, and the node is kept or removed by what the host returns then.
\<close>

lemma analyze_chance_span:
  assumes "\<not> str_includes e ''${''"
  shows "analyzeElement (chance_span e)
           = Analysis (Some ''name'') False None None (Some e) None False (Some ''name'') [] []"
  using assms by (simp add: chance_span_def Let_def endsWith_def)

lemma processElement_chance_span:
  assumes "e \<noteq> []" and "e \<noteq> ''@id==agent''" and "\<not> str_includes e ''${''"
    and "substituted e ann = Inr e'"
    and "Function_call h (function_body e') = Returned v"
  shows "processElement h True (chance_span e) (analyzeElement (chance_span e)) ann ctx
           = Inr (if truthy v
                  then [Element ''span'' [(''itemprop'', ''name''), (''data-constraint'', e)] []
                          [Text ''Ann'']]
                  else [], [])"
  unfolding analyze_chance_span [OF assms(3)]
  apply (subst processElement.simps)
  apply (simp add: check_constraints_def evaluateConstraint_def evaluateExpression_def
      truthy_str_def apply_scope_def assms ann_def [symmetric]
      del: processElement.simps processChildren.simps)
  apply (simp add: ann_def chance_span_def setElementValue_def content_text_def add_itemid_def)
  done

lemma render_chance:
  assumes e: "e \<noteq> []" "e \<noteq> ''@id==agent''" "\<not> str_includes e ''${''"
    and s: "substituted e ann = Inr e'"
    and f: "Function_call h (function_body e') = Returned v"
    and inst: "templateCache inst = parseTemplate h0 (chance_template e) None" "selector inst = None"
  shows "snd (render h inst ann)
           = Inr (Single (Some (Element ''div'' [] []
                    (if truthy v
                     then [Element ''span'' [(''itemprop'', ''name''), (''data-constraint'', e)] []
                             [Text ''Ann'']]
                     else []))), [])"
proof -
  let ?div = "Element ''div'' [] [] [chance_span e]"
  let ?kept = "if truthy v
               then [Element ''span'' [(''itemprop'', ''name''), (''data-constraint'', e)] []
                       [Text ''Ann'']]
               else []"
  have cache: "parseTemplate h0 (chance_template e) None = [make_root ?div]"
    by (simp add: parseTemplate_def selector_given_def truthy_str_def chance_template_def
        chance_span_def hasAttribute_def getAttribute_def)
  have st: "r_structure (make_root ?div)
              = Analysis None False None None None None False None [] [analyzeElement (chance_span e)]"
    by (simp add: make_root_def chance_span_def)
  have kids: "processChildren h 0 [chance_span e] [analyzeElement (chance_span e)] ann ctx
                = Inr (?kept, [])" for ctx
    apply (subst processChildren.simps)
    apply (simp add: processElement_chance_span [OF e s f] chance_span_def [symmetric]
        del: processElement.simps processChildren.simps)
    apply (simp add: chance_span_def)
    done
  have root: "processElement h False ?div (r_structure (make_root ?div)) ann ctx
                = Inr ([Element ''div'' [] [] ?kept], [])" for ctx
    unfolding st
    apply (subst processElement.simps)
    apply (simp add: check_constraints_def truthy_str_def apply_scope_def kids add_itemid_def
        del: processElement.simps processChildren.simps)
    apply (simp add: ann_def)
    done
  have sel: "matchingTemplate [make_root ?div] None ann = Inr (Selected (make_root ?div))"
    by (simp add: matchingTemplate_def selector_given_def truthy_str_def firstAvailable_def
        make_root_def getAttribute_def object_prototype_names_def ann_def)
  have re: "r_element (make_root ?div) = ?div"
    by (simp add: make_root_def)
  have single: "renderSingle h (inst\<lparr>lastRenderData := Some ann\<rparr>) ann
                  = Inr (Some (Element ''div'' [] [] ?kept), [])"
    by (simp add: renderSingle_def inst cache sel re root del: processElement.simps)
  have "snd (render h inst ann)
          = (case renderSingle h (inst\<lparr>lastRenderData := Some ann\<rparr>) ann of
               Inl e \<Rightarrow> Inl e
             | Inr (r, w) \<Rightarrow> Inr (Single r, w))"
    by (simp add: render_def ann_def Let_def)
  then show ?thesis
    by (simp only: single sum.case prod.case)
qed

text \<open>
  C8. Two renders of one record on one instance give different nodes when the host
  answers the constraint text with a true value at the first render and with a false
  value at the second: the first result holds the \<open>span\<close> with the name, the second does
  not hold the \<open>span\<close>. The template is a \<open>div\<close> with a \<open>span\<close> bound to \<open>name\<close> under the
  constraint \<open>e\<close>, for every text \<open>e\<close> that reaches the host as \<open>e'\<close>; \<open>h1\<close> and \<open>h2\<close> are
  the host at the first and at the second render.
\<close>

theorem render_twice_differs:
  assumes "HTMLTemplate h0 (TemplateElement (chance_template e)) None = Inr inst"
    and "e \<noteq> []" and "e \<noteq> ''@id==agent''" and "\<not> str_includes e ''${''"
    and "substituted e ann = Inr e'"
    and "Function_call h1 (function_body e') = Returned v1" and "truthy v1"
    and "Function_call h2 (function_body e') = Returned v2" and "\<not> truthy v2"
  shows "snd (render h1 inst ann)
           = Inr (Single (Some (Element ''div'' [] []
                    [Element ''span'' [(''itemprop'', ''name''), (''data-constraint'', e)] []
                       [Text ''Ann'']])), [])
         \<and> snd (render h2 (fst (render h1 inst ann)) ann)
           = Inr (Single (Some (Element ''div'' [] [] [])), [])"
proof -
  from assms(1) have i: "templateCache inst = parseTemplate h0 (chance_template e) None"
      "selector inst = None"
    by (auto simp: HTMLTemplate_def)
  have j: "templateCache (fst (render h1 inst ann)) = parseTemplate h0 (chance_template e) None"
      "selector (fst (render h1 inst ann)) = None"
    using i by (simp_all add: render_frame)
  show ?thesis
    using render_chance [OF assms(2-5) assms(6) i] render_chance [OF assms(2-5) assms(8) j]
      assms(7,9)
    by simp
qed

theorem render_twice_differs_witness:
  "HTMLTemplate bare_host (TemplateElement (chance_template chance_text)) None
     = Inr (template_of (chance_template chance_text))
   \<and> substituted chance_text ann = Inr chance_text
   \<and> snd (render (host_answering (function_body chance_text) (JBool True))
             (template_of (chance_template chance_text)) ann)
       = Inr (Single (Some (Element ''div'' [] []
                [Element ''span'' [(''itemprop'', ''name''), (''data-constraint'', chance_text)] []
                   [Text ''Ann'']])), [])
   \<and> snd (render (host_answering (function_body chance_text) (JBool False))
             (fst (render (host_answering (function_body chance_text) (JBool True))
                     (template_of (chance_template chance_text)) ann)) ann)
       = Inr (Single (Some (Element ''div'' [] [] [])), [])
   \<and> HTMLTemplate bare_host (TemplateElement (chance_template counter_text)) None
     = Inr (template_of (chance_template counter_text))
   \<and> substituted counter_text ann = Inr counter_text
   \<and> snd (render (host_answering (function_body counter_text) (JBool True))
             (template_of (chance_template counter_text)) ann)
       = Inr (Single (Some (Element ''div'' [] []
                [Element ''span'' [(''itemprop'', ''name''), (''data-constraint'', counter_text)] []
                   [Text ''Ann'']])), [])
   \<and> snd (render (host_answering (function_body counter_text) (JBool False))
             (fst (render (host_answering (function_body counter_text) (JBool True))
                     (template_of (chance_template counter_text)) ann)) ann)
       = Inr (Single (Some (Element ''div'' [] [] [])), [])"
proof -
  have a: "HTMLTemplate bare_host (TemplateElement (chance_template e)) None
             = Inr (template_of (chance_template e))" for e
    by (simp add: HTMLTemplate_def template_of_def)
  have b: "chance_text \<noteq> []" "chance_text \<noteq> ''@id==agent''" "\<not> str_includes chance_text ''${''"
    by (simp_all add: chance_text_def)
  have c: "counter_text \<noteq> []" "counter_text \<noteq> ''@id==agent''"
      "\<not> str_includes counter_text ''${''"
    by (simp_all add: counter_text_def)
  have s: "substituted chance_text ann = Inr chance_text" by code_simp
  have t: "substituted counter_text ann = Inr counter_text" by code_simp
  have f: "Function_call (host_answering x v) x = Returned v" for x v
    by (simp add: host_answering_def)
  show ?thesis
    using render_twice_differs [OF a b s f _ f, of "JBool True" "JBool False"]
      render_twice_differs [OF a c t f _ f, of "JBool True" "JBool False"] a s t
    by simp
qed



end
